theory Spec2Isabelle
  imports Main
begin

section \<open>Data model (game.ts)\<close>

datatype PlayerColor = Red | Blue

datatype PieceType = Normal | Bagel | Pancake | Bomb | Vinyl | FlyingDisk

datatype GamePhase = Menu | Draft | Placement | Play | GameOver

record Square =
  row :: int
  col :: int

text \<open>The fields \<open>id\<close> and \<open>type\<close> of a piece are called \<open>pid\<close> and \<open>ptype\<close> here.\<close>

record Piece =
  pid :: string
  ptype :: PieceType
  player :: PlayerColor
  crowned :: bool
  position :: Square

record Move =
  move_piece :: Piece
  move_from :: Square
  move_to :: Square
  move_captured :: "Piece option"

record WinResult =
  gameOver :: bool
  winner :: "PlayerColor option"

record CaptureResult =
  capturedPiece :: "Piece option"
  capturedSquare :: "Square option"

text \<open>\<open>Record<PlayerColor, X>\<close>: one value per colour.\<close>

record 'a PerPlayer =
  red :: 'a
  blue :: 'a

section \<open>JavaScript arrays and failure\<close>

text \<open>
  The only exception the rule engine can raise is the \<open>TypeError\<close> of reading or
  writing a property of \<open>undefined\<close>, which happens at \<open>board[r][c]\<close> when
  \<open>board[r]\<close> does not exist.
\<close>

datatype error = TypeError

definition bindE :: "error + 'a \<Rightarrow> ('a \<Rightarrow> error + 'b) \<Rightarrow> error + 'b" where
  "bindE m f = (case m of Inl e \<Rightarrow> Inl e | Inr v \<Rightarrow> f v)"

text \<open>
  What reading an element of a row gives: \<open>undefined\<close> (no such element),
  \<open>null\<close> (an empty square) or a piece.
\<close>

datatype cell = Undefined | Null | Pc Piece

text \<open>
  A row of the board is a JavaScript array: a length and the values stored under its
  integer keys. A key that holds nothing reads as \<open>undefined\<close>. Writing at a key
  from the length on extends the array (up to the largest array index, \<open>2^32 - 2\<close>);
  writing at any other key outside the array stores a plain property and keeps the length.
  The spread \<open>[...boardRow]\<close> copies the elements below the length only.
\<close>

record JSRow =
  len :: nat
  at :: "int \<Rightarrow> cell"

type_synonym Board = "JSRow list"

definition getCell :: "Board \<Rightarrow> int \<Rightarrow> int \<Rightarrow> error + cell" where
  "getCell b r c =
     (if 0 \<le> r \<and> r < int (length b) then Inr (at (b ! nat r) c) else Inl TypeError)"

definition writeRow :: "JSRow \<Rightarrow> int \<Rightarrow> cell \<Rightarrow> JSRow" where
  "writeRow rw c v =
     \<lparr> len = (if int (len rw) \<le> c \<and> c < 4294967295 then nat c + 1 else len rw),
       at = (at rw)(c := v) \<rparr>"

definition setCell :: "Board \<Rightarrow> int \<Rightarrow> int \<Rightarrow> cell \<Rightarrow> error + Board" where
  "setCell b r c v =
     (if 0 \<le> r \<and> r < int (length b) then Inr (b[nat r := writeRow (b ! nat r) c v])
      else Inl TypeError)"

definition copyRow :: "JSRow \<Rightarrow> JSRow" where
  "copyRow rw =
     \<lparr> len = len rw,
       at = (\<lambda>i. if 0 \<le> i \<and> i < int (len rw) then at rw i else Undefined) \<rparr>"

text \<open>\<open>board.map(boardRow => [...boardRow])\<close>\<close>

definition copyBoard :: "Board \<Rightarrow> Board" where
  "copyBoard b = map copyRow b"

text \<open>
  A value of the type \<open>(Piece | null)[][]\<close> written as a literal: a list of rows, each
  a list of optional pieces. \<open>boardOf\<close> is that value as an array of arrays.
\<close>

type_synonym Grid = "Piece option list list"

definition cellOf :: "Piece option \<Rightarrow> cell" where
  "cellOf x = (case x of None \<Rightarrow> Null | Some p \<Rightarrow> Pc p)"

definition rowOf :: "Piece option list \<Rightarrow> JSRow" where
  "rowOf xs =
     \<lparr> len = length xs,
       at = (\<lambda>i. if 0 \<le> i \<and> i < int (length xs) then cellOf (xs ! nat i) else Undefined) \<rparr>"

definition boardOf :: "Grid \<Rightarrow> Board" where
  "boardOf g = map rowOf g"

text \<open>The board of the data model: eight rows of eight squares.\<close>

definition grid8 :: "Grid \<Rightarrow> bool" where
  "grid8 g \<longleftrightarrow> length g = 8 \<and> list_all (\<lambda>xs. length xs = 8) g"

definition onBoard :: "Square \<Rightarrow> bool" where
  "onBoard s \<longleftrightarrow> 0 \<le> row s \<and> row s < 8 \<and> 0 \<le> col s \<and> col s < 8"

text \<open>The piece on a square of the grid, none off the board.\<close>

definition pieceAt :: "Grid \<Rightarrow> Square \<Rightarrow> Piece option" where
  "pieceAt g s = (if onBoard s then g ! nat (row s) ! nat (col s) else None)"

definition emptyGrid :: Grid where
  "emptyGrid = replicate 8 (replicate 8 None)"

section \<open>Rule engine (gameLogic.ts)\<close>

text \<open>A loop that pushes the candidates passing a test, stopping at the first exception.\<close>

fun filterE :: "('a \<Rightarrow> error + bool) \<Rightarrow> 'a list \<Rightarrow> error + 'a list" where
  "filterE t [] = Inr []"
| "filterE t (x # xs) =
     (case t x of
        Inl e \<Rightarrow> Inl e
      | Inr ok \<Rightarrow>
          (case filterE t xs of
             Inl e \<Rightarrow> Inl e
           | Inr ys \<Rightarrow> Inr (if ok then x # ys else ys)))"

record Jump =
  midRow :: int
  midCol :: int
  endRow :: int
  endCol :: int

text \<open>\<open>x?.player\<close>: \<open>undefined\<close> when \<open>x\<close> is \<open>undefined\<close> or \<open>null\<close>.\<close>

definition optPlayer :: "cell \<Rightarrow> PlayerColor option" where
  "optPlayer v = (case v of Pc q \<Rightarrow> Some (player q) | _ \<Rightarrow> None)"

text \<open>The test of the one-step loops: in bounds and \<open>board[move.row][move.col] === null\<close>.\<close>

definition stepOk :: "Board \<Rightarrow> Square \<Rightarrow> error + bool" where
  "stepOk b m =
     (if row m \<ge> 0 \<and> row m < 8 \<and> col m \<ge> 0 \<and> col m < 8
      then bindE (getCell b (row m) (col m)) (\<lambda>v. Inr (v = Null))
      else Inr False)"

text \<open>
  The test of the capture loops. The conjunction is evaluated left to right and stops at
  the first false conjunct; the midpoint is read twice in the source, with the same result.
\<close>

definition jumpOk :: "Board \<Rightarrow> Piece \<Rightarrow> Jump \<Rightarrow> error + bool" where
  "jumpOk b p m =
     (if endRow m \<ge> 0 \<and> endRow m < 8 \<and> endCol m \<ge> 0 \<and> endCol m < 8
      then bindE (getCell b (midRow m) (midCol m)) (\<lambda>mid.
             if mid \<noteq> Null \<and> optPlayer mid \<noteq> Some (player p)
             then bindE (getCell b (endRow m) (endCol m)) (\<lambda>e. Inr (e = Null))
             else Inr False)
      else Inr False)"

definition jumpEnd :: "Jump \<Rightarrow> Square" where
  "jumpEnd m = \<lparr> row = endRow m, col = endCol m \<rparr>"

text \<open>The candidate lists \<open>diagonalMoves\<close> and \<open>captureMoves\<close> of \<open>getNormalMoves\<close>.\<close>

definition direction :: "Piece \<Rightarrow> int" where
  "direction p = (if player p = Red then 1 else - 1)"

definition diagonalMoves :: "Piece \<Rightarrow> Square list" where
  "diagonalMoves p =
     (let r = row (position p); c = col (position p)
      in [\<lparr> row = r + direction p, col = c - 1 \<rparr>, \<lparr> row = r + direction p, col = c + 1 \<rparr>]
         @ (if crowned p
            then [\<lparr> row = r - direction p, col = c - 1 \<rparr>,
                  \<lparr> row = r - direction p, col = c + 1 \<rparr>]
            else []))"

definition captureMoves :: "Piece \<Rightarrow> Jump list" where
  "captureMoves p =
     (let r = row (position p); c = col (position p)
      in [\<lparr> midRow = r + direction p, midCol = c - 1,
            endRow = r + 2 * direction p, endCol = c - 2 \<rparr>,
          \<lparr> midRow = r + direction p, midCol = c + 1,
            endRow = r + 2 * direction p, endCol = c + 2 \<rparr>]
         @ (if crowned p
            then [\<lparr> midRow = r - direction p, midCol = c - 1,
                     endRow = r - 2 * direction p, endCol = c - 2 \<rparr>,
                  \<lparr> midRow = r - direction p, midCol = c + 1,
                     endRow = r - 2 * direction p, endCol = c + 2 \<rparr>]
            else []))"

definition getNormalMoves :: "Board \<Rightarrow> Piece \<Rightarrow> error + Square list" where
  "getNormalMoves b p =
     bindE (filterE (stepOk b) (diagonalMoves p)) (\<lambda>moves.
       bindE (filterE (jumpOk b p) (captureMoves p)) (\<lambda>caps.
         Inr (moves @ map jumpEnd caps)))"

definition isValidDiagonalMove :: "Square \<Rightarrow> Square \<Rightarrow> bool \<Rightarrow> PlayerColor \<Rightarrow> bool" where
  "isValidDiagonalMove src dst crownd pl =
     (let rowDiff = row dst - row src;
          colDiff = col dst - col src;
          absRowDiff = \<bar>rowDiff\<bar>;
          absColDiff = \<bar>colDiff\<bar>
      in if absRowDiff \<noteq> absColDiff then False
         else if \<not> crownd \<and> pl = Red \<and> rowDiff < 0 then False
         else if \<not> crownd \<and> pl = Blue \<and> rowDiff > 0 then False
         else True)"

definition getBagelMoves :: "Board \<Rightarrow> Piece \<Rightarrow> Move list \<Rightarrow> error + Square list" where
  "getBagelMoves b p moveHistory =
     bindE (getNormalMoves b p) (\<lambda>normalMoves.
       bindE
         (if length moveHistory > 0
          then (let lastMove = moveHistory ! (length moveHistory - 1)
                in if player (move_piece lastMove) \<noteq> player p
                   then (let targetSquare = move_from lastMove
                         in if isValidDiagonalMove (position p) targetSquare (crowned p) (player p)
                            then bindE (getCell b (row targetSquare) (col targetSquare))
                                   (\<lambda>v. Inr (if v = Null then [targetSquare] else []))
                            else Inr [])
                   else Inr [])
          else Inr [])
         (\<lambda>specialMoves. Inr (normalMoves @ specialMoves)))"

text \<open>The candidate lists \<open>possibleMoves\<close> and \<open>captureDirections\<close> of \<open>getPancakeMoves\<close>.\<close>

definition possibleMoves :: "Piece \<Rightarrow> Square list" where
  "possibleMoves p =
     (let r = row (position p); c = col (position p)
      in [\<lparr> row = r + 1, col = c + 1 \<rparr>, \<lparr> row = r + 1, col = c - 1 \<rparr>,
          \<lparr> row = r - 1, col = c + 1 \<rparr>, \<lparr> row = r - 1, col = c - 1 \<rparr>,
          \<lparr> row = r, col = c + 1 \<rparr>, \<lparr> row = r, col = c - 1 \<rparr>])"

definition captureDirections :: "Piece \<Rightarrow> Jump list" where
  "captureDirections p =
     (let r = row (position p); c = col (position p)
      in [\<lparr> midRow = r + 1, midCol = c + 1, endRow = r + 2, endCol = c + 2 \<rparr>,
          \<lparr> midRow = r + 1, midCol = c - 1, endRow = r + 2, endCol = c - 2 \<rparr>,
          \<lparr> midRow = r - 1, midCol = c + 1, endRow = r - 2, endCol = c + 2 \<rparr>,
          \<lparr> midRow = r - 1, midCol = c - 1, endRow = r - 2, endCol = c - 2 \<rparr>,
          \<lparr> midRow = r, midCol = c + 1, endRow = r, endCol = c + 2 \<rparr>,
          \<lparr> midRow = r, midCol = c - 1, endRow = r, endCol = c - 2 \<rparr>])"

definition getPancakeMoves :: "Board \<Rightarrow> Piece \<Rightarrow> error + Square list" where
  "getPancakeMoves b p =
     bindE (filterE (stepOk b) (possibleMoves p)) (\<lambda>moves.
       bindE (filterE (jumpOk b p) (captureDirections p)) (\<lambda>caps.
         Inr (moves @ map jumpEnd caps)))"

text \<open>
  \<open>midPiece !== null && midPiece.player !== piece.player\<close>, with no optional chaining:
  reading \<open>player\<close> of \<open>undefined\<close> raises.
\<close>

definition notNullOpponent :: "cell \<Rightarrow> Piece \<Rightarrow> error + bool" where
  "notNullOpponent midPiece p =
     (case midPiece of
        Null \<Rightarrow> Inr False
      | Undefined \<Rightarrow> Inl TypeError
      | Pc q \<Rightarrow> Inr (player q \<noteq> player p))"

definition isValidNormalMove :: "Board \<Rightarrow> Square \<Rightarrow> Square \<Rightarrow> Piece \<Rightarrow> error + bool" where
  "isValidNormalMove b src dst p =
     (let rowDiff = row dst - row src;
          colDiff = col dst - col src;
          absRowDiff = \<bar>rowDiff\<bar>;
          absColDiff = \<bar>colDiff\<bar>;
          isForwardMove = ((player p = Red \<and> rowDiff > 0) \<or> (player p = Blue \<and> rowDiff < 0))
      in if absRowDiff = 1 \<and> absColDiff = 1 then Inr (crowned p \<or> isForwardMove)
         else if absRowDiff = 2 \<and> absColDiff = 2
         then bindE (getCell b (row src + rowDiff div 2) (col src + colDiff div 2)) (\<lambda>midPiece.
                if crowned p \<or> isForwardMove then notNullOpponent midPiece p else Inr False)
         else Inr False)"

definition isValidBagelMove :: "Board \<Rightarrow> Square \<Rightarrow> Square \<Rightarrow> Piece \<Rightarrow> error + bool" where
  "isValidBagelMove b src dst p =
     bindE (isValidNormalMove b src dst p) (\<lambda>ok. if ok then Inr True else Inr False)"

definition isValidPancakeMove :: "Board \<Rightarrow> Square \<Rightarrow> Square \<Rightarrow> Piece \<Rightarrow> error + bool" where
  "isValidPancakeMove b src dst p =
     (let rowDiff = row dst - row src;
          colDiff = col dst - col src;
          absRowDiff = \<bar>rowDiff\<bar>;
          absColDiff = \<bar>colDiff\<bar>
      in bindE (isValidNormalMove b src dst p) (\<lambda>ok.
           if ok then Inr True
           else bindE (if absRowDiff = 0 \<and> absColDiff = 1
                       then bindE (getCell b (row dst) (col dst)) (\<lambda>v. Inr (v = Null))
                       else Inr False) (\<lambda>lateral.
                  if lateral then Inr True
                  else if absRowDiff = 0 \<and> absColDiff = 2
                  then bindE (getCell b (row src) (col src + colDiff div 2))
                         (\<lambda>midPiece. notNullOpponent midPiece p)
                  else Inr False)))"

text \<open>
  The destination is read before its bounds are checked; an element that does not exist is
  \<open>undefined\<close>, which is not \<open>null\<close>.
\<close>

definition isValidMove :: "Board \<Rightarrow> Square \<Rightarrow> Square \<Rightarrow> Piece \<Rightarrow> error + bool" where
  "isValidMove b src dst p =
     bindE (getCell b (row dst) (col dst)) (\<lambda>v.
       if v \<noteq> Null then Inr False
       else if row dst < 0 \<or> row dst > 7 \<or> col dst < 0 \<or> col dst > 7 then Inr False
       else (case ptype p of
               Normal \<Rightarrow> isValidNormalMove b src dst p
             | Bagel \<Rightarrow> isValidBagelMove b src dst p
             | Pancake \<Rightarrow> isValidPancakeMove b src dst p
             | _ \<Rightarrow> Inr False))"

definition noCapture :: CaptureResult where
  "noCapture = \<lparr> capturedPiece = None, capturedSquare = None \<rparr>"

text \<open>\<open>Math.sign\<close> on integers is \<open>sgn\<close>. A piece is truthy, \<open>null\<close> and \<open>undefined\<close> are not.\<close>

definition handleCapture :: "Board \<Rightarrow> Square \<Rightarrow> Square \<Rightarrow> Piece \<Rightarrow> error + CaptureResult" where
  "handleCapture b src dst p =
     (let rowDiff = row dst - row src;
          colDiff = col dst - col src;
          absRowDiff = \<bar>rowDiff\<bar>;
          absColDiff = \<bar>colDiff\<bar>
      in if (absRowDiff = 2 \<and> absColDiff = 2)
            \<or> (ptype p = Pancake \<and> absRowDiff = 0 \<and> absColDiff = 2)
         then (let mRow = row src + sgn rowDiff * (if absRowDiff > 0 then 1 else 0);
                   mCol = col src + sgn colDiff * 1
               in bindE (getCell b mRow mCol) (\<lambda>v.
                    case v of
                      Pc q \<Rightarrow>
                        if player q \<noteq> player p
                        then Inr \<lparr> capturedPiece = Some q,
                                   capturedSquare = Some \<lparr> row = mRow, col = mCol \<rparr> \<rparr>
                        else Inr noCapture
                    | _ \<Rightarrow> Inr noCapture))
         else Inr noCapture)"

text \<open>The moves the win check computes for a piece; bagels are given an empty history.\<close>

definition scanMoves :: "Board \<Rightarrow> Piece \<Rightarrow> error + Square list" where
  "scanMoves b p =
     (case ptype p of
        Normal \<Rightarrow> getNormalMoves b p
      | Bagel \<Rightarrow> getBagelMoves b p []
      | Pancake \<Rightarrow> getPancakeMoves b p
      | _ \<Rightarrow> Inr [])"

definition allSquares :: "(int \<times> int) list" where
  "allSquares = concat (map (\<lambda>r. map (\<lambda>c. (r, c)) [0..7]) [0..7])"

text \<open>
  The nested loops over rows and columns, as one loop over the squares in the same order;
  the two flags are the loop's variables. The loop returns early once both are set.
\<close>

fun scanBoard :: "Board \<Rightarrow> (int \<times> int) list \<Rightarrow> bool \<Rightarrow> bool \<Rightarrow> error + WinResult" where
  "scanBoard b [] redHasMoves blueHasMoves =
     (if \<not> redHasMoves then Inr \<lparr> gameOver = True, winner = Some Blue \<rparr>
      else if \<not> blueHasMoves then Inr \<lparr> gameOver = True, winner = Some Red \<rparr>
      else Inr \<lparr> gameOver = False, winner = None \<rparr>)"
| "scanBoard b ((r, c) # rest) redHasMoves blueHasMoves =
     (case getCell b r c of
        Inl e \<Rightarrow> Inl e
      | Inr (Pc p) \<Rightarrow>
          (case scanMoves b p of
             Inl e \<Rightarrow> Inl e
           | Inr moves \<Rightarrow>
               (case (if player p = Red \<and> length moves > 0 then (True, blueHasMoves)
                      else if player p = Blue \<and> length moves > 0 then (redHasMoves, True)
                      else (redHasMoves, blueHasMoves)) of
                  (redHasMoves', blueHasMoves') \<Rightarrow>
                    if redHasMoves' \<and> blueHasMoves'
                    then Inr \<lparr> gameOver = False, winner = None \<rparr>
                    else scanBoard b rest redHasMoves' blueHasMoves'))
      | Inr _ \<Rightarrow> scanBoard b rest redHasMoves blueHasMoves)"

definition checkWinCondition :: "Board \<Rightarrow> int PerPlayer \<Rightarrow> error + WinResult" where
  "checkWinCondition b pieceCounts =
     (if red pieceCounts = 0 then Inr \<lparr> gameOver = True, winner = Some Blue \<rparr>
      else if blue pieceCounts = 0 then Inr \<lparr> gameOver = True, winner = Some Red \<rparr>
      else scanBoard b allSquares False False)"

section \<open>Game state machine (GameContext.tsx)\<close>

record PieceSelection =
  sel_type :: PieceType
  sel_count :: int
  sel_max :: int

record GameState =
  phase :: GamePhase
  currentPlayer :: PlayerColor
  board :: Board
  scores :: "int PerPlayer"
  capturedPieces :: "Piece list PerPlayer"
  moveHistory :: "Move list"
  pieceCounts :: "int PerPlayer"
  gameActive :: bool

text \<open>The four state variables of \<open>GameProvider\<close>.\<close>

record Provider =
  gameState :: GameState
  selectedPiece :: "Piece option"
  validMoves :: "Square list"
  pieceSelections :: "PieceSelection list PerPlayer"

text \<open>
  What a command leaves behind: it returns with the new state, or an exception leaves the
  handler, with the state as the updates already requested made it.
\<close>

datatype Outcome = Done Provider | Raised error Provider

definition getP :: "'a PerPlayer \<Rightarrow> PlayerColor \<Rightarrow> 'a" where
  "getP r pl = (case pl of Red \<Rightarrow> red r | Blue \<Rightarrow> blue r)"

definition setP :: "'a PerPlayer \<Rightarrow> PlayerColor \<Rightarrow> 'a \<Rightarrow> 'a PerPlayer" where
  "setP r pl v = (case pl of Red \<Rightarrow> r\<lparr> red := v \<rparr> | Blue \<Rightarrow> r\<lparr> blue := v \<rparr>)"

definition TOTAL_PIECES_PER_PLAYER :: int where
  "TOTAL_PIECES_PER_PLAYER = 12"

definition initialSelections :: "PieceSelection list" where
  "initialSelections =
     [\<lparr> sel_type = Normal, sel_count = 0, sel_max = 12 \<rparr>,
      \<lparr> sel_type = Bagel, sel_count = 0, sel_max = 6 \<rparr>,
      \<lparr> sel_type = Pancake, sel_count = 0, sel_max = 6 \<rparr>]"

definition initializeEmptyBoard :: Board where
  "initializeEmptyBoard = replicate 8 (rowOf (replicate 8 None))"

definition setupBoardForPlacement :: Board where
  "setupBoardForPlacement = initializeEmptyBoard"

definition startGame :: "Provider \<Rightarrow> Outcome" where
  "startGame s =
     Done (s\<lparr> gameState := (gameState s)
                 \<lparr> phase := Draft,
                   currentPlayer := Red,
                   scores := \<lparr> red = 0, blue = 0 \<rparr>,
                   capturedPieces := \<lparr> red = [], blue = [] \<rparr>,
                   moveHistory := [],
                   pieceCounts := \<lparr> red = 0, blue = 0 \<rparr>,
                   gameActive := False \<rparr>,
              pieceSelections := \<lparr> red = initialSelections, blue = initialSelections \<rparr> \<rparr>)"

definition resetGame :: "Provider \<Rightarrow> Outcome" where
  "resetGame s =
     Done (s\<lparr> gameState :=
                \<lparr> phase = Menu,
                  currentPlayer = Red,
                  board = initializeEmptyBoard,
                  scores = \<lparr> red = 0, blue = 0 \<rparr>,
                  capturedPieces = \<lparr> red = [], blue = [] \<rparr>,
                  moveHistory = [],
                  pieceCounts = \<lparr> red = 0, blue = 0 \<rparr>,
                  gameActive = False \<rparr>,
              selectedPiece := None,
              validMoves := [] \<rparr>)"

text \<open>\<open>selections.reduce((sum, selection) => sum + selection.count, 0)\<close>\<close>

definition totalCount :: "PieceSelection list \<Rightarrow> int" where
  "totalCount sels = foldl (\<lambda>sum selection. sum + sel_count selection) 0 sels"

definition finishDraft :: "Provider \<Rightarrow> Outcome" where
  "finishDraft s =
     (let redTotal = totalCount (red (pieceSelections s));
          blueTotal = totalCount (blue (pieceSelections s))
      in if redTotal \<noteq> TOTAL_PIECES_PER_PLAYER \<or> blueTotal \<noteq> TOTAL_PIECES_PER_PLAYER
         then Done s
         else Done (s\<lparr> gameState := (gameState s)
                          \<lparr> phase := Placement,
                            board := setupBoardForPlacement,
                            gameActive := True,
                            pieceCounts := \<lparr> red = redTotal, blue = blueTotal \<rparr> \<rparr> \<rparr>))"

definition placePiece :: "Provider \<Rightarrow> Piece \<Rightarrow> int \<Rightarrow> int \<Rightarrow> Outcome" where
  "placePiece s p r c =
     (if phase (gameState s) \<noteq> Placement then Done s
      else (let newBoard = copyBoard (board (gameState s));
                placedPiece = p\<lparr> position := \<lparr> row = r, col = c \<rparr> \<rparr>
            in case setCell newBoard r c (Pc placedPiece) of
                 Inl e \<Rightarrow> Raised e s
               | Inr newBoard' \<Rightarrow> Done (s\<lparr> gameState := (gameState s)\<lparr> board := newBoard' \<rparr> \<rparr>)))"

definition finishPlacement :: "Provider \<Rightarrow> Outcome" where
  "finishPlacement s =
     Done (s\<lparr> gameState := (gameState s)\<lparr> phase := Play, currentPlayer := Red \<rparr> \<rparr>)"

text \<open>The move generator as the state machine calls it, by the variant of the piece.\<close>

definition getValidMovesForPiece :: "GameState \<Rightarrow> Piece \<Rightarrow> error + Square list" where
  "getValidMovesForPiece gs p =
     (case ptype p of
        Normal \<Rightarrow> getNormalMoves (board gs) p
      | Bagel \<Rightarrow> getBagelMoves (board gs) p (moveHistory gs)
      | Pancake \<Rightarrow> getPancakeMoves (board gs) p
      | _ \<Rightarrow> Inr [])"

text \<open>\<open>setSelectedPiece\<close> is requested before the moves are computed.\<close>

definition selectPiece :: "Provider \<Rightarrow> Piece \<Rightarrow> Outcome" where
  "selectPiece s p =
     (if player p \<noteq> currentPlayer (gameState s) \<or> \<not> gameActive (gameState s) then Done s
      else (case getValidMovesForPiece (gameState s) p of
              Inl e \<Rightarrow> Raised e (s\<lparr> selectedPiece := Some p \<rparr>)
            | Inr moves \<Rightarrow> Done (s\<lparr> selectedPiece := Some p, validMoves := moves \<rparr>)))"

definition deselectPiece :: "Provider \<Rightarrow> Outcome" where
  "deselectPiece s = Done (s\<lparr> selectedPiece := None, validMoves := [] \<rparr>)"

definition otherPlayer :: "PlayerColor \<Rightarrow> PlayerColor" where
  "otherPlayer pl = (if pl = Red then Blue else Red)"

definition movePiece :: "Provider \<Rightarrow> int \<Rightarrow> int \<Rightarrow> Outcome" where
  "movePiece s r c =
     (case selectedPiece s of
        None \<Rightarrow> Done s
      | Some sel \<Rightarrow>
          if \<not> gameActive (gameState s) then Done s
          else if \<not> list_ex (\<lambda>m. row m = r \<and> col m = c) (validMoves s) then Done s
          else
            (let gs = gameState s;
                 pieceRow = row (position sel);
                 pieceCol = col (position sel);
                 newBoard = copyBoard (board gs)
             in case
                  bindE (handleCapture (board gs) \<lparr> row = pieceRow, col = pieceCol \<rparr>
                           \<lparr> row = r, col = c \<rparr> sel) (\<lambda>captureResult.
                  bindE (setCell newBoard pieceRow pieceCol Null) (\<lambda>newBoard1.
                  let movedPiece =
                        (if (currentPlayer gs = Red \<and> r = 7) \<or> (currentPlayer gs = Blue \<and> r = 0)
                         then sel\<lparr> position := \<lparr> row = r, col = c \<rparr>, crowned := True \<rparr>
                         else sel\<lparr> position := \<lparr> row = r, col = c \<rparr> \<rparr>)
                  in
                  bindE (setCell newBoard1 r c (Pc movedPiece)) (\<lambda>newBoard2.
                  let newScores =
                        (case capturedPiece captureResult of
                           None \<Rightarrow> scores gs
                         | Some cp \<Rightarrow>
                             setP (scores gs) (currentPlayer gs)
                               (getP (scores gs) (currentPlayer gs) + 1));
                      newCapturedPieces =
                        (case capturedPiece captureResult of
                           None \<Rightarrow> capturedPieces gs
                         | Some cp \<Rightarrow>
                             setP (capturedPieces gs) (currentPlayer gs)
                               (getP (capturedPieces gs) (currentPlayer gs) @ [cp]));
                      newMoveHistory =
                        moveHistory gs
                        @ [\<lparr> move_piece = sel,
                             move_from = \<lparr> row = pieceRow, col = pieceCol \<rparr>,
                             move_to = \<lparr> row = r, col = c \<rparr>,
                             move_captured = capturedPiece captureResult \<rparr>];
                      newPieceCounts =
                        \<lparr> red = red (pieceCounts gs)
                                 - (if currentPlayer gs = Blue \<and> capturedPiece captureResult \<noteq> None
                                    then 1 else 0),
                          blue = blue (pieceCounts gs)
                                 - (if currentPlayer gs = Red \<and> capturedPiece captureResult \<noteq> None
                                    then 1 else 0) \<rparr>
                  in
                  bindE (checkWinCondition newBoard2 newPieceCounts) (\<lambda>winResult.
                  let newPhase = (if gameOver winResult then GameOver else phase gs);
                      nextPlayer = otherPlayer (currentPlayer gs)
                  in Inr (s\<lparr> gameState := gs
                               \<lparr> board := newBoard2,
                                 currentPlayer := nextPlayer,
                                 scores := newScores,
                                 capturedPieces := newCapturedPieces,
                                 moveHistory := newMoveHistory,
                                 pieceCounts := newPieceCounts,
                                 phase := newPhase \<rparr>,
                            selectedPiece := None,
                            validMoves := [] \<rparr>))))) of
                  Inl e \<Rightarrow> Raised e s
                | Inr s' \<Rightarrow> Done s'))"

text \<open>\<open>findIndex\<close>: the first index whose element passes the test, \<open>-1\<close> when none does.\<close>

fun findIndex :: "('a \<Rightarrow> bool) \<Rightarrow> 'a list \<Rightarrow> int" where
  "findIndex t [] = - 1"
| "findIndex t (x # xs) =
     (if t x then 0 else (let i = findIndex t xs in if i < 0 then - 1 else i + 1))"

text \<open>
  The third argument of the source is not used. With no selection of the given variant the
  index is \<open>-1\<close> and reading \<open>count\<close> of \<open>undefined\<close> raises.
\<close>

definition togglePieceSelection :: "Provider \<Rightarrow> PlayerColor \<Rightarrow> PieceType \<Rightarrow> int \<Rightarrow> Outcome" where
  "togglePieceSelection s pl pieceType idx =
     (let sels = getP (pieceSelections s) pl;
          selectionIndex = findIndex (\<lambda>x. sel_type x = pieceType) sels;
          currentTotal = totalCount sels
      in if selectionIndex < 0 then Raised TypeError s
         else (let x = sels ! nat selectionIndex
               in if sel_count x < sel_max x \<and> currentTotal < TOTAL_PIECES_PER_PLAYER
                  then Done (s\<lparr> pieceSelections :=
                                  setP (pieceSelections s) pl
                                    (sels[nat selectionIndex := x\<lparr> sel_count := sel_count x + 1 \<rparr>]) \<rparr>)
                  else if sel_count x > 0
                  then Done (s\<lparr> pieceSelections :=
                                  setP (pieceSelections s) pl
                                    (sels[nat selectionIndex := x\<lparr> sel_count := sel_count x - 1 \<rparr>]) \<rparr>)
                  else Done s))"

text \<open>The commands of the state machine, and one step of it.\<close>

datatype Command =
    StartGame
  | ResetGame
  | FinishDraft
  | FinishPlacement
  | SelectPiece Piece
  | DeselectPiece
  | MovePiece int int
  | TogglePieceSelection PlayerColor PieceType int
  | PlacePiece Piece int int

fun step :: "Provider \<Rightarrow> Command \<Rightarrow> Outcome" where
  "step s StartGame = startGame s"
| "step s ResetGame = resetGame s"
| "step s FinishDraft = finishDraft s"
| "step s FinishPlacement = finishPlacement s"
| "step s (SelectPiece p) = selectPiece s p"
| "step s DeselectPiece = deselectPiece s"
| "step s (MovePiece r c) = movePiece s r c"
| "step s (TogglePieceSelection pl t i) = togglePieceSelection s pl t i"
| "step s (PlacePiece p r c) = placePiece s p r c"

section \<open>Computer opponent (aiService.ts)\<close>

datatype AIDifficulty = Easy | Medium | Hard

record Candidate =
  cand_piece :: Piece
  cand_move :: Square

definition playerColor :: PlayerColor where
  "playerColor = Blue"

definition squares8 :: "Square list" where
  "squares8 = map (\<lambda>(r, c). \<lparr> row = r, col = c \<rparr>) allSquares"

text \<open>The helper of the same name in aiService.ts: every square the validator accepts.\<close>

definition getValidMovesForPieceAI :: "Piece \<Rightarrow> Board \<Rightarrow> error + Square list" where
  "getValidMovesForPieceAI p b =
     filterE (\<lambda>targetSquare.
        bindE (getCell b (row targetSquare) (col targetSquare)) (\<lambda>targetPiece.
          if optPlayer targetPiece = Some (player p) then Inr False
          else isValidMove b (position p) targetSquare p)) squares8"

definition getAIPieces :: "GameState \<Rightarrow> Piece list" where
  "getAIPieces gs =
     concat (map (\<lambda>rw.
       concat (map (\<lambda>c. case at rw (int c) of
                           Pc p \<Rightarrow> if player p = playerColor then [p] else []
                         | _ \<Rightarrow> []) [0..<len rw])) (board gs))"

text \<open>
  \<open>Math.floor(Math.random() * n)\<close> is some index below \<open>n\<close>; the natural number
  \<open>rnd\<close> stands for the outcome of the draw.
\<close>

definition randomIndex :: "nat \<Rightarrow> nat \<Rightarrow> nat" where
  "randomIndex rnd n = rnd mod n"

definition getPieceValue :: "PieceType \<Rightarrow> int" where
  "getPieceValue t =
     (case t of FlyingDisk \<Rightarrow> 5 | Pancake \<Rightarrow> 4 | Bomb \<Rightarrow> 3 | Vinyl \<Rightarrow> 2 | Bagel \<Rightarrow> 1 | Normal \<Rightarrow> 0)"

definition isCapturing :: "Candidate \<Rightarrow> bool" where
  "isCapturing m \<longleftrightarrow> \<bar>col (cand_move m) - col (position (cand_piece m))\<bar> = 2"

text \<open>\<open>selectMove\<close> of the classes EasyAI, MediumAI and HardAI; the sort is stable.\<close>

definition selectMove :: "AIDifficulty \<Rightarrow> nat \<Rightarrow> Candidate list \<Rightarrow> Candidate option" where
  "selectMove d rnd possible =
     (if length possible = 0 then None
      else case d of
        Easy \<Rightarrow> Some (possible ! randomIndex rnd (length possible))
      | Medium \<Rightarrow>
          (let capturingMoves = filter isCapturing possible
           in if length capturingMoves > 0
              then Some (capturingMoves ! randomIndex rnd (length capturingMoves))
              else Some (possible ! randomIndex rnd (length possible)))
      | Hard \<Rightarrow>
          (let capturingMoves = filter isCapturing possible
           in if length capturingMoves > 0
              then Some (sort_key (\<lambda>m. getPieceValue (ptype (cand_piece m))) capturingMoves ! 0)
              else
                (let forwardMoves =
                       filter (\<lambda>m. \<not> crowned (cand_piece m)
                                    \<and> row (cand_move m) < row (position (cand_piece m))) possible
                 in if length forwardMoves > 0
                    then (let crowningMoves = filter (\<lambda>m. row (cand_move m) = 0) forwardMoves
                          in if length crowningMoves > 0 then Some (crowningMoves ! 0)
                             else (let centerMoves =
                                         filter (\<lambda>m. col (cand_move m) \<ge> 2 \<and> col (cand_move m) \<le> 5)
                                           forwardMoves
                                   in if length centerMoves > 0 then Some (centerMoves ! 0)
                                      else Some (forwardMoves ! 0)))
                    else Some (possible ! randomIndex rnd (length possible)))))"

text \<open>The loop over the pieces of the AI that collects \<open>allPossibleMoves\<close>.\<close>

fun collectMoves :: "Board \<Rightarrow> Piece list \<Rightarrow> error + Candidate list" where
  "collectMoves b [] = Inr []"
| "collectMoves b (p # ps) =
     (case getValidMovesForPieceAI p b of
        Inl e \<Rightarrow> Inl e
      | Inr ms \<Rightarrow>
          (case collectMoves b ps of
             Inl e \<Rightarrow> Inl e
           | Inr rest \<Rightarrow> Inr (map (\<lambda>m. \<lparr> cand_piece = p, cand_move = m \<rparr>) ms @ rest)))"

definition getNextMove :: "AIDifficulty \<Rightarrow> nat \<Rightarrow> GameState \<Rightarrow> error + Move option" where
  "getNextMove d rnd gs =
     (if currentPlayer gs \<noteq> playerColor then Inr None
      else (let aiPieces = getAIPieces gs
            in if length aiPieces = 0 then Inr None
               else bindE (collectMoves (board gs) aiPieces) (\<lambda>allPossibleMoves.
                      if length allPossibleMoves = 0 then Inr None
                      else (case selectMove d rnd allPossibleMoves of
                              None \<Rightarrow> Inr None
                            | Some selectedMove \<Rightarrow>
                                Inr (Some \<lparr> move_piece = cand_piece selectedMove,
                                            move_from = position (cand_piece selectedMove),
                                            move_to = cand_move selectedMove,
                                            move_captured = None \<rparr>)))))"

section \<open>Notions of the specification and example positions\<close>

text \<open>A piece of the opponent of \<open>p\<close> stands on square \<open>s\<close>.\<close>

definition opposing :: "Grid \<Rightarrow> Piece \<Rightarrow> Square \<Rightarrow> bool" where
  "opposing g p s \<longleftrightarrow> (case pieceAt g s of None \<Rightarrow> False | Some q \<Rightarrow> player q \<noteq> player p)"

text \<open>The square a jump passes over.\<close>

definition jumpMid :: "Jump \<Rightarrow> Square" where
  "jumpMid m = \<lparr> row = midRow m, col = midCol m \<rparr>"

text \<open>The square halfway between two squares.\<close>

definition midpoint :: "Square \<Rightarrow> Square \<Rightarrow> Square" where
  "midpoint s e = \<lparr> row = row s + (row e - row s) div 2, col = col s + (col e - col s) div 2 \<rparr>"

text \<open>
  A row difference the piece may move by: any when crowned, else towards the far edge
  (increasing rows for red, decreasing rows for blue).
\<close>

definition forwardOk :: "Piece \<Rightarrow> int \<Rightarrow> bool" where
  "forwardOk p dr \<longleftrightarrow> crowned p \<or> (player p = Red \<and> dr > 0) \<or> (player p = Blue \<and> dr < 0)"

text \<open>The result of \<open>getNormalMoves\<close> on a grid, without the exceptions.\<close>

definition pureNormalMoves :: "Grid \<Rightarrow> Piece \<Rightarrow> Square list" where
  "pureNormalMoves g p =
     filter (\<lambda>m. onBoard m \<and> pieceAt g m = None) (diagonalMoves p)
     @ map jumpEnd
         (filter (\<lambda>j. onBoard (jumpEnd j) \<and> opposing g p (jumpMid j) \<and> pieceAt g (jumpEnd j) = None)
            (captureMoves p))"

definition mkPiece :: "string \<Rightarrow> PieceType \<Rightarrow> PlayerColor \<Rightarrow> bool \<Rightarrow> int \<Rightarrow> int \<Rightarrow> Piece" where
  "mkPiece i t pl cr r c =
     \<lparr> pid = i, ptype = t, player = pl, crowned = cr, position = \<lparr> row = r, col = c \<rparr> \<rparr>"

text \<open>Puts each piece of a list on the square it names as its position.\<close>

fun gridWith :: "Piece list \<Rightarrow> Grid" where
  "gridWith [] = emptyGrid"
| "gridWith (p # ps) =
     (let g = gridWith ps; r = nat (row (position p)); c = nat (col (position p))
      in g[r := (g ! r)[c := Some p]])"

text \<open>The scenario of the specification: a red piece on (2,3), a blue piece on (3,4).\<close>

definition red23 :: Piece where
  "red23 = mkPiece ''red-normal-0'' Normal Red False 2 3"

definition blue34 :: Piece where
  "blue34 = mkPiece ''blue-normal-0'' Normal Blue False 3 4"

definition scenarioGrid :: Grid where
  "scenarioGrid = gridWith [red23, blue34]"

text \<open>
  The geometry of a capture: two squares diagonally, or for a pancake two squares along
  the row.
\<close>

definition qualifyingJump :: "Square \<Rightarrow> Square \<Rightarrow> Piece \<Rightarrow> bool" where
  "qualifyingJump src dst p \<longleftrightarrow>
     (\<bar>row dst - row src\<bar> = 2 \<and> \<bar>col dst - col src\<bar> = 2)
     \<or> (ptype p = Pancake \<and> \<bar>row dst - row src\<bar> = 0 \<and> \<bar>col dst - col src\<bar> = 2)"

text \<open>Further example positions.\<close>

definition blue01 :: Piece where
  "blue01 = mkPiece ''blue-normal-0'' Normal Blue False 0 1"

definition redPancake33 :: Piece where
  "redPancake33 = mkPiece ''red-pancake-0'' Pancake Red False 3 3"

definition redBagel23 :: Piece where
  "redBagel23 = mkPiece ''red-bagel-0'' Bagel Red False 2 3"

definition blue45 :: Piece where
  "blue45 = mkPiece ''blue-normal-0'' Normal Blue False 4 5"

definition bagelHistory :: "Move list" where
  "bagelHistory =
     [\<lparr> move_piece = mkPiece ''blue-normal-0'' Normal Blue False 5 6,
        move_from = \<lparr> row = 5, col = 6 \<rparr>, move_to = \<lparr> row = 4, col = 5 \<rparr>,
        move_captured = None \<rparr>]"

text \<open>Positions with a bagel and the move the opponent made last.\<close>

definition blueBagel65 :: Piece where
  "blueBagel65 = mkPiece ''blue-bagel-0'' Bagel Blue False 6 5"

definition red32 :: Piece where
  "red32 = mkPiece ''red-normal-0'' Normal Red False 3 2"

definition redHistory :: "Move list" where
  "redHistory =
     [\<lparr> move_piece = mkPiece ''red-normal-0'' Normal Red False 2 1,
        move_from = \<lparr> row = 2, col = 1 \<rparr>, move_to = \<lparr> row = 3, col = 2 \<rparr>,
        move_captured = None \<rparr>]"

definition redCrownedBagel44 :: Piece where
  "redCrownedBagel44 = mkPiece ''red-bagel-0'' Bagel Red True 4 4"

definition blue11 :: Piece where
  "blue11 = mkPiece ''blue-normal-0'' Normal Blue False 1 1"

definition blueHistory :: "Move list" where
  "blueHistory =
     [\<lparr> move_piece = mkPiece ''blue-normal-0'' Normal Blue False 2 2,
        move_from = \<lparr> row = 2, col = 2 \<rparr>, move_to = \<lparr> row = 1, col = 1 \<rparr>,
        move_captured = None \<rparr>]"

text \<open>The result of \<open>getPancakeMoves\<close> on a grid, without the exceptions.\<close>

definition purePancakeMoves :: "Grid \<Rightarrow> Piece \<Rightarrow> Square list" where
  "purePancakeMoves g p =
     filter (\<lambda>m. onBoard m \<and> pieceAt g m = None) (possibleMoves p)
     @ map jumpEnd
         (filter (\<lambda>j. onBoard (jumpEnd j) \<and> opposing g p (jumpMid j) \<and> pieceAt g (jumpEnd j) = None)
            (captureDirections p))"

text \<open>Every piece on the grid names a position on the board.\<close>

definition positionsOnBoard :: "Grid \<Rightarrow> bool" where
  "positionsOnBoard g \<longleftrightarrow>
     list_all (list_all (\<lambda>x. case x of None \<Rightarrow> True | Some p \<Rightarrow> onBoard (position p))) g"

text \<open>
  The win check finds a move for the piece; a player has a move when one of the pieces of
  that colour on the board has one.
\<close>

definition movable :: "Grid \<Rightarrow> Piece \<Rightarrow> bool" where
  "movable g p \<longleftrightarrow> (case scanMoves (boardOf g) p of Inl e \<Rightarrow> False | Inr ms \<Rightarrow> ms \<noteq> [])"

definition hasMovesIn :: "Grid \<Rightarrow> PlayerColor \<Rightarrow> (int \<times> int) list \<Rightarrow> bool" where
  "hasMovesIn g pl sqs \<longleftrightarrow>
     list_ex (\<lambda>(r, c). case pieceAt g \<lparr> row = r, col = c \<rparr> of
                          None \<Rightarrow> False
                        | Some p \<Rightarrow> player p = pl \<and> movable g p) sqs"

definition hasMoves :: "Grid \<Rightarrow> PlayerColor \<Rightarrow> bool" where
  "hasMoves g pl \<longleftrightarrow> hasMovesIn g pl allSquares"

text \<open>The outcome of the scan, from who can move.\<close>

definition verdict :: "bool \<Rightarrow> bool \<Rightarrow> WinResult" where
  "verdict redCanMove blueCanMove =
     (if \<not> redCanMove then \<lparr> gameOver = True, winner = Some Blue \<rparr>
      else if \<not> blueCanMove then \<lparr> gameOver = True, winner = Some Red \<rparr>
      else \<lparr> gameOver = False, winner = None \<rparr>)"

text \<open>The state a command leaves behind, whether it returned or raised.\<close>

definition stateAfter :: "Outcome \<Rightarrow> Provider" where
  "stateAfter out = (case out of Done s \<Rightarrow> s | Raised e s \<Rightarrow> s)"

text \<open>The initial values of the state variables of \<open>GameProvider\<close>, and states for the examples.\<close>

definition initialProvider :: Provider where
  "initialProvider =
     \<lparr> gameState =
         \<lparr> phase = Menu, currentPlayer = Red, board = initializeEmptyBoard,
           scores = \<lparr> red = 0, blue = 0 \<rparr>,
           capturedPieces = \<lparr> red = [], blue = [] \<rparr>,
           moveHistory = [],
           pieceCounts = \<lparr> red = 0, blue = 0 \<rparr>,
           gameActive = False \<rparr>,
       selectedPiece = None,
       validMoves = [],
       pieceSelections = \<lparr> red = initialSelections, blue = initialSelections \<rparr> \<rparr>"

definition withCounts :: "int \<Rightarrow> int \<Rightarrow> int \<Rightarrow> PieceSelection list" where
  "withCounts n b k =
     [\<lparr> sel_type = Normal, sel_count = n, sel_max = 12 \<rparr>,
      \<lparr> sel_type = Bagel, sel_count = b, sel_max = 6 \<rparr>,
      \<lparr> sel_type = Pancake, sel_count = k, sel_max = 6 \<rparr>]"

text \<open>A state in the given phase with the given board, red to move, the game active.\<close>

definition stateWith :: "GamePhase \<Rightarrow> Grid \<Rightarrow> Provider" where
  "stateWith ph g =
     initialProvider\<lparr> gameState := (gameState initialProvider)
        \<lparr> phase := ph, board := boardOf g, gameActive := True,
          pieceCounts := \<lparr> red = 12, blue = 12 \<rparr> \<rparr> \<rparr>"

definition draftState :: "PieceSelection list \<Rightarrow> PieceSelection list \<Rightarrow> Provider" where
  "draftState redSel blueSel =
     initialProvider\<lparr> gameState := (gameState initialProvider)\<lparr> phase := Draft \<rparr>,
                      pieceSelections := \<lparr> red = redSel, blue = blueSel \<rparr> \<rparr>"

definition blue23 :: Piece where
  "blue23 = mkPiece ''blue-normal-0'' Normal Blue False 2 3"

definition red44 :: Piece where
  "red44 = mkPiece ''red-normal-1'' Normal Red False 4 4"

text \<open>
  The piece as \<open>movePiece\<close> puts it on its destination, and the grid after the move:
  the origin emptied, the destination holding the piece.
\<close>

definition landed :: "PlayerColor \<Rightarrow> Piece \<Rightarrow> int \<Rightarrow> int \<Rightarrow> Piece" where
  "landed cur sel r c =
     (if (cur = Red \<and> r = 7) \<or> (cur = Blue \<and> r = 0)
      then sel\<lparr> position := \<lparr> row = r, col = c \<rparr>, crowned := True \<rparr>
      else sel\<lparr> position := \<lparr> row = r, col = c \<rparr> \<rparr>)"

definition gridAfterMove :: "Grid \<Rightarrow> PlayerColor \<Rightarrow> Piece \<Rightarrow> int \<Rightarrow> int \<Rightarrow> Grid" where
  "gridAfterMove g cur sel r c =
     (let pr = nat (row (position sel)); pc = nat (col (position sel));
          g1 = g[pr := (g ! pr)[pc := None]]
      in g1[nat r := (g1 ! nat r)[nat c := Some (landed cur sel r c)]])"

text \<open>
  What the validator decides on a grid, without the exceptions: the rule of the normal
  piece, the rule of the pancake, and the whole of \<open>isValidMove\<close>.
\<close>

definition validNormal :: "Grid \<Rightarrow> Square \<Rightarrow> Square \<Rightarrow> Piece \<Rightarrow> bool" where
  "validNormal g src dst p \<longleftrightarrow>
     forwardOk p (row dst - row src)
     \<and> ((\<bar>row dst - row src\<bar> = 1 \<and> \<bar>col dst - col src\<bar> = 1)
        \<or> (\<bar>row dst - row src\<bar> = 2 \<and> \<bar>col dst - col src\<bar> = 2
           \<and> opposing g p (midpoint src dst)))"

definition validPancake :: "Grid \<Rightarrow> Square \<Rightarrow> Square \<Rightarrow> Piece \<Rightarrow> bool" where
  "validPancake g src dst p \<longleftrightarrow>
     validNormal g src dst p
     \<or> (row dst = row src \<and> \<bar>col dst - col src\<bar> = 1 \<and> pieceAt g dst = None)
     \<or> (row dst = row src \<and> \<bar>col dst - col src\<bar> = 2 \<and> opposing g p (midpoint src dst))"

definition accepted :: "Grid \<Rightarrow> Square \<Rightarrow> Square \<Rightarrow> Piece \<Rightarrow> bool" where
  "accepted g src dst p \<longleftrightarrow>
     pieceAt g dst = None
     \<and> (case ptype p of
          Normal \<Rightarrow> validNormal g src dst p
        | Bagel \<Rightarrow> validNormal g src dst p
        | Pancake \<Rightarrow> validPancake g src dst p
        | _ \<Rightarrow> False)"

text \<open>The AI has a piece with a move: its helper finds a destination for one of its pieces.\<close>

definition aiCanMove :: "GameState \<Rightarrow> bool" where
  "aiCanMove gs \<longleftrightarrow>
     list_ex (\<lambda>p. case getValidMovesForPieceAI p (board gs) of
                     Inl e \<Rightarrow> False
                   | Inr ms \<Rightarrow> ms \<noteq> []) (getAIPieces gs)"

text \<open>
  Blue to move with an uncrowned pancake on (0,0) and a bomb on (0,1): the only move the
  generator gives blue is the pancake's backward step to (1,1).
\<close>

definition bluePancake00 :: Piece where
  "bluePancake00 = mkPiece ''blue-pancake-0'' Pancake Blue False 0 0"

definition blueBomb01 :: Piece where
  "blueBomb01 = mkPiece ''blue-bomb-0'' Bomb Blue False 0 1"

definition stuckState :: GameState where
  "stuckState =
     (gameState (stateWith Play (gridWith [bluePancake00, blueBomb01])))\<lparr> currentPlayer := Blue \<rparr>"

text \<open>
  A list of commands, run one after the other; a command that raises leaves the state its
  updates had made by then.
\<close>

fun run :: "Provider \<Rightarrow> Command list \<Rightarrow> Provider" where
  "run s [] = s"
| "run s (cmd # cmds) = run (stateAfter (step s cmd)) cmds"

text \<open>A state in the phase Play with the given board, blue to move, the game active.\<close>

definition blueToMove :: "Grid \<Rightarrow> Provider" where
  "blueToMove g =
     (stateWith Play g)\<lparr> gameState := (gameState (stateWith Play g))\<lparr> currentPlayer := Blue \<rparr> \<rparr>"

text \<open>
  A red bagel in the corner (0,0), behind blue pieces on (1,1) and (3,3). Blue selects the
  piece on (3,3) and moves it to (2,2): \<open>cornerState\<close> is the state after that move,
  \<open>cornerHistory\<close> the history it then holds.
\<close>

definition redBagel00 :: Piece where
  "redBagel00 = mkPiece ''red-bagel-0'' Bagel Red False 0 0"

definition blue33 :: Piece where
  "blue33 = mkPiece ''blue-normal-1'' Normal Blue False 3 3"

definition blue22 :: Piece where
  "blue22 = mkPiece ''blue-normal-1'' Normal Blue False 2 2"

definition cornerHistory :: "Move list" where
  "cornerHistory =
     [\<lparr> move_piece = blue33, move_from = \<lparr> row = 3, col = 3 \<rparr>,
        move_to = \<lparr> row = 2, col = 2 \<rparr>, move_captured = None \<rparr>]"

definition cornerState :: Provider where
  "cornerState =
     run (blueToMove (gridWith [redBagel00, blue11, blue33])) [SelectPiece blue33, MovePiece 2 2]"

text \<open>
  A red piece on (2,3), a blue piece on (1,0), one step from row 0, and a second blue piece
  on (5,4); red to move. Red moves, blue selects the piece on (1,0) and moves it to (0,1):
  in \<open>staleSelection\<close> with a call of \<open>finishPlacement\<close> between the selection and
  the move, in \<open>freshSelection\<close> without it.
\<close>

definition blue10 :: Piece where
  "blue10 = mkPiece ''blue-normal-0'' Normal Blue False 1 0"

definition blue54 :: Piece where
  "blue54 = mkPiece ''blue-normal-1'' Normal Blue False 5 4"

definition staleSelection :: "Command list" where
  "staleSelection =
     [SelectPiece red23, MovePiece 3 2, SelectPiece blue10, FinishPlacement, MovePiece 0 1]"

definition freshSelection :: "Command list" where
  "freshSelection = [SelectPiece red23, MovePiece 3 2, SelectPiece blue10, MovePiece 0 1]"

section \<open>Basic facts\<close>

lemma bindE_Inl [simp]: "bindE (Inl e) f = Inl e"
  by (simp add: bindE_def)

lemma bindE_Inr [simp]: "bindE (Inr v) f = f v"
  by (simp add: bindE_def)

lemma filterE_pure:
  "(\<And>x. x \<in> set xs \<Longrightarrow> t x = Inr (P x)) \<Longrightarrow> filterE t xs = Inr (filter P xs)"
  by (induction xs) auto

lemma Square_eq: "(m = \<lparr> row = a, col = b \<rparr>) \<longleftrightarrow> row m = a \<and> col m = b"
  by (cases m) simp

lemma grid8_nth: "grid8 g \<Longrightarrow> 0 \<le> r \<Longrightarrow> r < 8 \<Longrightarrow> length (g ! nat r) = 8"
  by (auto simp: grid8_def list_all_length)

lemma grid8_emptyGrid: "grid8 emptyGrid"
  by (simp add: grid8_def emptyGrid_def list_all_length)

lemma grid8_update: "grid8 g \<Longrightarrow> grid8 (g[r := (g ! r)[c := x]])"
  unfolding grid8_def list_all_length
  by (cases "r < length g") (auto simp: nth_list_update)

lemma grid8_gridWith: "grid8 (gridWith ps)"
  by (induction ps) (simp_all add: grid8_emptyGrid grid8_update Let_def)

lemma getCell_boardOf:
  assumes "grid8 g"
  shows "getCell (boardOf g) r c =
     (if 0 \<le> r \<and> r < 8
      then Inr (if 0 \<le> c \<and> c < 8 then cellOf (g ! nat r ! nat c) else Undefined)
      else Inl TypeError)"
proof -
  have l: "length g = 8" using assms by (simp add: grid8_def)
  show ?thesis
  proof (cases "0 \<le> r \<and> r < 8")
    case True
    then have "length (g ! nat r) = 8" using assms grid8_nth by blast
    with True l show ?thesis
      by (auto simp: getCell_def boardOf_def rowOf_def)
  next
    case False
    with l show ?thesis by (auto simp: getCell_def boardOf_def)
  qed
qed

lemma getCell_onBoard:
  "grid8 g \<Longrightarrow> onBoard s \<Longrightarrow> getCell (boardOf g) (row s) (col s) = Inr (cellOf (pieceAt g s))"
  by (simp add: getCell_boardOf onBoard_def pieceAt_def)

lemma cellOf_Null [simp]: "cellOf x = Null \<longleftrightarrow> x = None"
  by (simp add: cellOf_def split: option.splits)

lemma cellOf_Pc [simp]: "cellOf x = Pc q \<longleftrightarrow> x = Some q"
  by (simp add: cellOf_def split: option.splits)

lemma cellOf_not_Undefined [simp]: "cellOf x \<noteq> Undefined"
  by (simp add: cellOf_def split: option.splits)

lemma optPlayer_cellOf [simp]: "optPlayer (cellOf x) = map_option player x"
  by (simp add: cellOf_def optPlayer_def split: option.splits)

lemma notNullOpponent_cellOf [simp]:
  "notNullOpponent (cellOf x) p = Inr (case x of None \<Rightarrow> False | Some q \<Rightarrow> player q \<noteq> player p)"
  by (simp add: notNullOpponent_def cellOf_def split: option.splits)

lemma opposing_iff: "opposing g p s \<longleftrightarrow> (\<exists>q. pieceAt g s = Some q \<and> player q \<noteq> player p)"
  by (simp add: opposing_def split: option.splits)

text \<open>The equations that evaluate the generators on a concrete board.\<close>

lemmas eval_defs = getNormalMoves_def diagonalMoves_def captureMoves_def direction_def
  stepOk_def jumpOk_def getCell_def boardOf_def rowOf_def cellOf_def optPlayer_def jumpEnd_def
  emptyGrid_def mkPiece_def Let_def

subsection \<open>The generator of normal moves on a grid\<close>

lemma stepOk_boardOf:
  "grid8 g \<Longrightarrow> stepOk (boardOf g) m = Inr (onBoard m \<and> pieceAt g m = None)"
  by (auto simp: stepOk_def getCell_onBoard onBoard_def)

lemma jumpOk_boardOf:
  assumes "grid8 g" "onBoard (jumpEnd j) \<Longrightarrow> onBoard (jumpMid j)"
  shows "jumpOk (boardOf g) p j =
     Inr (onBoard (jumpEnd j) \<and> opposing g p (jumpMid j) \<and> pieceAt g (jumpEnd j) = None)"
proof (cases "onBoard (jumpEnd j)")
  case True
  then have m: "onBoard (jumpMid j)" using assms(2) by simp
  have e: "getCell (boardOf g) (endRow j) (endCol j) = Inr (cellOf (pieceAt g (jumpEnd j)))"
    using getCell_onBoard [OF assms(1) True] by (simp add: jumpEnd_def)
  have mm: "getCell (boardOf g) (midRow j) (midCol j) = Inr (cellOf (pieceAt g (jumpMid j)))"
    using getCell_onBoard [OF assms(1) m] by (simp add: jumpMid_def)
  from True have b: "endRow j \<ge> 0 \<and> endRow j < 8 \<and> endCol j \<ge> 0 \<and> endCol j < 8"
    by (simp add: onBoard_def jumpEnd_def)
  show ?thesis
    using True b by (auto simp: jumpOk_def e mm opposing_def split: option.splits)
next
  case False
  then show ?thesis by (auto simp: jumpOk_def onBoard_def jumpEnd_def)
qed

lemma captureMoves_mid:
  "onBoard (position p) \<Longrightarrow> j \<in> set (captureMoves p) \<Longrightarrow> onBoard (jumpEnd j)
   \<Longrightarrow> onBoard (jumpMid j)"
  by (auto simp: captureMoves_def Let_def onBoard_def jumpEnd_def jumpMid_def direction_def
           split: if_splits)

lemma getNormalMoves_boardOf:
  assumes "grid8 g" "onBoard (position p)"
  shows "getNormalMoves (boardOf g) p = Inr (pureNormalMoves g p)"
proof -
  have 1: "filterE (stepOk (boardOf g)) (diagonalMoves p)
           = Inr (filter (\<lambda>m. onBoard m \<and> pieceAt g m = None) (diagonalMoves p))"
    by (rule filterE_pure) (simp add: stepOk_boardOf assms(1))
  have 2: "filterE (jumpOk (boardOf g) p) (captureMoves p)
           = Inr (filter (\<lambda>j. onBoard (jumpEnd j) \<and> opposing g p (jumpMid j)
                              \<and> pieceAt g (jumpEnd j) = None) (captureMoves p))"
  proof (rule filterE_pure)
    fix j assume "j \<in> set (captureMoves p)"
    then have "onBoard (jumpEnd j) \<Longrightarrow> onBoard (jumpMid j)"
      using captureMoves_mid assms(2) by blast
    then show "jumpOk (boardOf g) p j
      = Inr (onBoard (jumpEnd j) \<and> opposing g p (jumpMid j) \<and> pieceAt g (jumpEnd j) = None)"
      by (rule jumpOk_boardOf [OF assms(1)])
  qed
  show ?thesis by (simp add: getNormalMoves_def 1 2 pureNormalMoves_def)
qed

lemma set_diagonalMoves:
  "m \<in> set (diagonalMoves p) \<longleftrightarrow>
     \<bar>row m - row (position p)\<bar> = 1 \<and> \<bar>col m - col (position p)\<bar> = 1
     \<and> forwardOk p (row m - row (position p))"
proof (cases "player p")
  case Red
  then show ?thesis
    by (cases "crowned p")
       (simp_all add: diagonalMoves_def direction_def forwardOk_def Square_eq Let_def, arith+)
next
  case Blue
  then show ?thesis
    by (cases "crowned p")
       (simp_all add: diagonalMoves_def direction_def forwardOk_def Square_eq Let_def, arith+)
qed

lemma captureMoves_midpoint:
  "j \<in> set (captureMoves p) \<Longrightarrow> jumpMid j = midpoint (position p) (jumpEnd j)"
  by (auto simp: captureMoves_def Let_def jumpMid_def jumpEnd_def midpoint_def direction_def
           split: if_splits)

lemma jumpEnd_captureMoves:
  "m \<in> jumpEnd ` set (captureMoves p) \<longleftrightarrow>
     \<bar>row m - row (position p)\<bar> = 2 \<and> \<bar>col m - col (position p)\<bar> = 2
     \<and> forwardOk p (row m - row (position p))"
proof (cases "player p")
  case Red
  then show ?thesis
    by (cases "crowned p")
       (simp_all add: captureMoves_def direction_def forwardOk_def Square_eq Let_def jumpEnd_def
                      eq_commute [of m], arith+)
next
  case Blue
  then show ?thesis
    by (cases "crowned p")
       (simp_all add: captureMoves_def direction_def forwardOk_def Square_eq Let_def jumpEnd_def
                      eq_commute [of m], arith+)
qed

lemma ex_captureMoves:
  "(\<exists>j \<in> set (captureMoves p). jumpEnd j = m \<and> R (jumpMid j)) \<longleftrightarrow>
     \<bar>row m - row (position p)\<bar> = 2 \<and> \<bar>col m - col (position p)\<bar> = 2
     \<and> forwardOk p (row m - row (position p)) \<and> R (midpoint (position p) m)"
proof -
  have "(\<exists>j \<in> set (captureMoves p). jumpEnd j = m \<and> R (jumpMid j))
        \<longleftrightarrow> m \<in> jumpEnd ` set (captureMoves p) \<and> R (midpoint (position p) m)"
    using captureMoves_midpoint by fastforce
  then show ?thesis by (simp add: jumpEnd_captureMoves)
qed

lemma set_pureNormalMoves:
  "m \<in> set (pureNormalMoves g p) \<longleftrightarrow>
     onBoard m \<and> pieceAt g m = None \<and>
     forwardOk p (row m - row (position p)) \<and>
     ((\<bar>row m - row (position p)\<bar> = 1 \<and> \<bar>col m - col (position p)\<bar> = 1)
      \<or> (\<bar>row m - row (position p)\<bar> = 2 \<and> \<bar>col m - col (position p)\<bar> = 2
          \<and> opposing g p (midpoint (position p) m)))"
proof -
  have "m \<in> set (pureNormalMoves g p) \<longleftrightarrow>
          (m \<in> set (diagonalMoves p) \<and> onBoard m \<and> pieceAt g m = None)
          \<or> (\<exists>j \<in> set (captureMoves p). jumpEnd j = m
                \<and> (onBoard m \<and> pieceAt g m = None) \<and> opposing g p (jumpMid j))"
    by (auto simp: pureNormalMoves_def)
  also have "(\<exists>j \<in> set (captureMoves p). jumpEnd j = m
                \<and> (onBoard m \<and> pieceAt g m = None) \<and> opposing g p (jumpMid j))
        \<longleftrightarrow> (onBoard m \<and> pieceAt g m = None)
            \<and> (\<exists>j \<in> set (captureMoves p). jumpEnd j = m \<and> opposing g p (jumpMid j))"
    by blast
  finally show ?thesis
    by (simp only: set_diagonalMoves ex_captureMoves) blast
qed

subsection \<open>The capture resolver on a grid\<close>

lemma sgn_two: "\<bar>d\<bar> = 2 \<Longrightarrow> sgn d = d div 2" for d :: int
proof -
  assume "\<bar>d\<bar> = 2"
  then have "d = 2 \<or> d = - 2" by arith
  then show ?thesis by auto
qed

lemma handleCapture_unfold:
  "handleCapture b src dst p =
     (if qualifyingJump src dst p
      then bindE (getCell b (row src + sgn (row dst - row src) * (if \<bar>row dst - row src\<bar> > 0 then 1 else 0))
                    (col src + sgn (col dst - col src) * 1)) (\<lambda>v.
                    case v of
                      Pc q \<Rightarrow>
                        if player q \<noteq> player p
                        then Inr \<lparr> capturedPiece = Some q,
                                   capturedSquare = Some \<lparr> row = row src + sgn (row dst - row src) * (if \<bar>row dst - row src\<bar> > 0 then 1 else 0),
                                      col = col src + sgn (col dst - col src) * 1 \<rparr> \<rparr>
                        else Inr noCapture
                    | _ \<Rightarrow> Inr noCapture)
      else Inr noCapture)"
  by (simp only: handleCapture_def Let_def qualifyingJump_def)

lemma midpoint_eta: "\<lparr> row = row (midpoint s e), col = col (midpoint s e) \<rparr> = midpoint s e"
  by simp

lemma handleCapture_boardOf:
  assumes "grid8 g"
  shows "handleCapture (boardOf g) src dst p =
     (if qualifyingJump src dst p
      then (if 0 \<le> row (midpoint src dst) \<and> row (midpoint src dst) < 8
            then Inr (if opposing g p (midpoint src dst)
                      then \<lparr> capturedPiece = pieceAt g (midpoint src dst),
                             capturedSquare = Some (midpoint src dst) \<rparr>
                      else noCapture)
            else Inl TypeError)
      else Inr noCapture)"
proof (cases "qualifyingJump src dst p")
  case False
  then show ?thesis by (simp only: handleCapture_unfold if_False)
next
  case True
  then have c: "\<bar>col dst - col src\<bar> = 2" and r: "\<bar>row dst - row src\<bar> = 2 \<or> row dst - row src = 0"
    by (auto simp: qualifyingJump_def)
  have mc: "col src + sgn (col dst - col src) * 1 = col (midpoint src dst)"
    using c by (simp add: sgn_two midpoint_def)
  have mr: "row src + sgn (row dst - row src) * (if \<bar>row dst - row src\<bar> > 0 then 1 else 0)
            = row (midpoint src dst)"
    using r by (auto simp: sgn_two midpoint_def)
  have "handleCapture (boardOf g) src dst p =
        bindE (getCell (boardOf g) (row (midpoint src dst)) (col (midpoint src dst))) (\<lambda>v.
                    case v of
                      Pc q \<Rightarrow>
                        if player q \<noteq> player p
                        then Inr \<lparr> capturedPiece = Some q,
                                   capturedSquare = Some (midpoint src dst) \<rparr>
                        else Inr noCapture
                    | _ \<Rightarrow> Inr noCapture)"
    using True by (simp only: handleCapture_unfold if_True mr mc midpoint_eta)
  also have "\<dots> = (if 0 \<le> row (midpoint src dst) \<and> row (midpoint src dst) < 8
            then Inr (if opposing g p (midpoint src dst)
                      then \<lparr> capturedPiece = pieceAt g (midpoint src dst),
                             capturedSquare = Some (midpoint src dst) \<rparr>
                      else noCapture)
            else Inl TypeError)"
    by (auto simp: getCell_boardOf [OF assms] opposing_def pieceAt_def onBoard_def cellOf_def
             split: option.splits)
  finally show ?thesis using True by simp
qed


lemma scenario_cells:
  "pieceAt scenarioGrid \<lparr> row = 3, col = 4 \<rparr> = Some blue34"
  "pieceAt scenarioGrid \<lparr> row = 3, col = 2 \<rparr> = None"
  by (simp_all add: scenarioGrid_def pieceAt_def onBoard_def red23_def blue34_def mkPiece_def
        emptyGrid_def Let_def)

lemmas eval_valid = isValidMove_def isValidNormalMove_def isValidBagelMove_def notNullOpponent_def
  isValidPancakeMove_def getPancakeMoves_def possibleMoves_def captureDirections_def
  getBagelMoves_def isValidDiagonalMove_def handleCapture_def noCapture_def

subsection \<open>The special move of the bagel\<close>

lemma isValidDiagonalMove_iff:
  "isValidDiagonalMove src dst cr pl \<longleftrightarrow>
     \<bar>row dst - row src\<bar> = \<bar>col dst - col src\<bar>
     \<and> (cr \<or> (pl = Red \<and> row dst \<ge> row src) \<or> (pl = Blue \<and> row dst \<le> row src))"
proof -
  have "isValidDiagonalMove src dst cr pl \<longleftrightarrow>
     \<bar>row dst - row src\<bar> = \<bar>col dst - col src\<bar>
     \<and> \<not> (\<not> cr \<and> pl = Red \<and> row dst - row src < 0)
     \<and> \<not> (\<not> cr \<and> pl = Blue \<and> row dst - row src > 0)"
    by (simp add: isValidDiagonalMove_def Let_def)
  also have "\<dots> \<longleftrightarrow> \<bar>row dst - row src\<bar> = \<bar>col dst - col src\<bar>
     \<and> (cr \<or> (pl = Red \<and> row dst \<ge> row src) \<or> (pl = Blue \<and> row dst \<le> row src))"
    by (cases pl) auto
  finally show ?thesis .
qed

lemma special_if:
  "bindE (if A then (if R then bindE (Inr (cellOf x)) (\<lambda>v. Inr (if v = Null then [t] else []))
                     else Inr [])
          else Inr []) (\<lambda>s. Inr (N @ s))
   = Inr (N @ (if A \<and> x = None \<and> R then [t] else []))"
  by simp

subsection \<open>The win evaluator on a grid\<close>

lemma captureDirections_mid:
  "onBoard (position p) \<Longrightarrow> j \<in> set (captureDirections p) \<Longrightarrow> onBoard (jumpEnd j)
   \<Longrightarrow> onBoard (jumpMid j)"
  by (auto simp: captureDirections_def Let_def onBoard_def jumpEnd_def jumpMid_def)

lemma getPancakeMoves_boardOf:
  assumes "grid8 g" "onBoard (position p)"
  shows "getPancakeMoves (boardOf g) p = Inr (purePancakeMoves g p)"
proof -
  have 1: "filterE (stepOk (boardOf g)) (possibleMoves p)
           = Inr (filter (\<lambda>m. onBoard m \<and> pieceAt g m = None) (possibleMoves p))"
    by (rule filterE_pure) (simp add: stepOk_boardOf assms(1))
  have 2: "filterE (jumpOk (boardOf g) p) (captureDirections p)
           = Inr (filter (\<lambda>j. onBoard (jumpEnd j) \<and> opposing g p (jumpMid j)
                              \<and> pieceAt g (jumpEnd j) = None) (captureDirections p))"
  proof (rule filterE_pure)
    fix j assume "j \<in> set (captureDirections p)"
    then have "onBoard (jumpEnd j) \<Longrightarrow> onBoard (jumpMid j)"
      using captureDirections_mid assms(2) by blast
    then show "jumpOk (boardOf g) p j
      = Inr (onBoard (jumpEnd j) \<and> opposing g p (jumpMid j) \<and> pieceAt g (jumpEnd j) = None)"
      by (rule jumpOk_boardOf [OF assms(1)])
  qed
  show ?thesis by (simp add: getPancakeMoves_def 1 2 purePancakeMoves_def)
qed

lemma getBagelMoves_no_history:
  "getBagelMoves b p [] = getNormalMoves b p"
  by (cases "getNormalMoves b p") (simp_all add: getBagelMoves_def)

lemma scanMoves_boardOf:
  assumes "grid8 g" "onBoard (position p)"
  shows "\<exists>ms. scanMoves (boardOf g) p = Inr ms"
  by (cases "ptype p")
     (simp_all add: scanMoves_def getBagelMoves_no_history getNormalMoves_boardOf [OF assms]
        getPancakeMoves_boardOf [OF assms])

lemma positionsOnBoard_pieceAt:
  assumes "grid8 g" "positionsOnBoard g" "pieceAt g s = Some p"
  shows "onBoard (position p)"
proof -
  from assms(3) have ob: "onBoard s" and e: "g ! nat (row s) ! nat (col s) = Some p"
    by (auto simp: pieceAt_def split: if_splits)
  from ob have r: "nat (row s) < 8" and c: "nat (col s) < 8" by (auto simp: onBoard_def)
  from assms(1) have "length g = 8" and "length (g ! nat (row s)) = 8"
    using r by (auto simp: grid8_def list_all_length)
  with assms(2) r c have "case g ! nat (row s) ! nat (col s) of None \<Rightarrow> True
                           | Some p \<Rightarrow> onBoard (position p)"
    by (simp add: positionsOnBoard_def list_all_length)
  with e show ?thesis by simp
qed

lemma scanBoard_verdict:
  assumes "grid8 g" "positionsOnBoard g"
    and "\<forall>(r, c) \<in> set sqs. 0 \<le> r \<and> r < 8 \<and> 0 \<le> c \<and> c < 8"
  shows "scanBoard (boardOf g) sqs rh bh
         = Inr (verdict (rh \<or> hasMovesIn g Red sqs) (bh \<or> hasMovesIn g Blue sqs))"
  using assms(3)
proof (induction sqs arbitrary: rh bh)
  case Nil
  show ?case by (simp add: verdict_def hasMovesIn_def)
next
  case (Cons sq sqs)
  obtain r c where sq: "sq = (r, c)" by (cases sq)
  with Cons.prems have ob: "onBoard \<lparr> row = r, col = c \<rparr>"
    and rest: "\<forall>(r, c) \<in> set sqs. 0 \<le> r \<and> r < 8 \<and> 0 \<le> c \<and> c < 8"
    by (auto simp: onBoard_def)
  have cell: "getCell (boardOf g) r c = Inr (cellOf (pieceAt g \<lparr> row = r, col = c \<rparr>))"
    using getCell_onBoard [OF assms(1) ob] by simp
  note IH = Cons.IH [OF rest]
  show ?case
  proof (cases "pieceAt g \<lparr> row = r, col = c \<rparr>")
    case None
    then show ?thesis
      by (simp add: sq cell cellOf_def IH hasMovesIn_def)
  next
    case (Some p)
    then have "onBoard (position p)" using positionsOnBoard_pieceAt assms(1,2) by blast
    then obtain ms where ms: "scanMoves (boardOf g) p = Inr ms"
      using scanMoves_boardOf assms(1) by blast
    then have mv: "movable g p \<longleftrightarrow> ms \<noteq> []" by (simp add: movable_def)
    show ?thesis
      by (cases "player p"; cases "ms = []"; cases rh; cases bh)
         (simp_all add: sq cell cellOf_def Some ms IH hasMovesIn_def mv verdict_def)
  qed
qed


lemma allSquares_bounds: "\<forall>(r, c) \<in> set allSquares. 0 \<le> r \<and> r < 8 \<and> 0 \<le> c \<and> c < 8"
  by (auto simp: allSquares_def)

lemma allSquares_eval:
  "allSquares = [(0, 0), (0, 1), (0, 2), (0, 3), (0, 4), (0, 5), (0, 6), (0, 7), (1, 0),
  (1, 1), (1, 2), (1, 3), (1, 4), (1, 5), (1, 6), (1, 7), (2, 0), (2, 1),
  (2, 2), (2, 3), (2, 4), (2, 5), (2, 6), (2, 7), (3, 0), (3, 1), (3, 2),
  (3, 3), (3, 4), (3, 5), (3, 6), (3, 7), (4, 0), (4, 1), (4, 2), (4, 3),
  (4, 4), (4, 5), (4, 6), (4, 7), (5, 0), (5, 1), (5, 2), (5, 3), (5, 4),
  (5, 5), (5, 6), (5, 7), (6, 0), (6, 1), (6, 2), (6, 3), (6, 4), (6, 5),
  (6, 6), (6, 7), (7, 0), (7, 1), (7, 2), (7, 3), (7, 4), (7, 5), (7, 6),
  (7, 7)]"
  by (simp add: allSquares_def upto.simps)

lemma positionsOnBoard_emptyGrid: "positionsOnBoard emptyGrid"
  by (simp add: positionsOnBoard_def emptyGrid_def list_all_length)

lemma positionsOnBoard_update:
  assumes "positionsOnBoard g" "onBoard (position p)"
  shows "positionsOnBoard (g[r := (g ! r)[c := Some p]])"
proof (cases "r < length g")
  case True
  show ?thesis
  proof (cases "c < length (g ! r)")
    case c: True
    show ?thesis using assms True c
      unfolding positionsOnBoard_def list_all_length
      by (auto simp: nth_list_update)
  next
    case False
    then have "(g ! r)[c := Some p] = g ! r" by (simp add: list_update_beyond)
    then show ?thesis using assms by simp
  qed
next
  case False
  then show ?thesis using assms by (simp add: list_update_beyond)
qed

lemma positionsOnBoard_gridWith:
  "list_all (\<lambda>p. onBoard (position p)) ps \<Longrightarrow> positionsOnBoard (gridWith ps)"
  by (induction ps) (simp_all add: positionsOnBoard_emptyGrid positionsOnBoard_update Let_def)

subsection \<open>Copying and writing boards\<close>

lemma copyRow_rowOf [simp]: "copyRow (rowOf xs) = rowOf xs"
  by (auto simp: copyRow_def rowOf_def fun_eq_iff)

lemma copyBoard_boardOf [simp]: "copyBoard (boardOf g) = boardOf g"
  by (simp add: copyBoard_def boardOf_def)

lemma initializeEmptyBoard_boardOf: "initializeEmptyBoard = boardOf emptyGrid"
  by (simp add: initializeEmptyBoard_def boardOf_def emptyGrid_def)

lemma writeRow_rowOf:
  assumes "0 \<le> c" "c < int (length xs)"
  shows "writeRow (rowOf xs) c (cellOf x) = rowOf (xs[nat c := x])"
proof -
  have "(at (rowOf xs))(c := cellOf x) = at (rowOf (xs[nat c := x]))"
  proof
    fix i
    show "((at (rowOf xs))(c := cellOf x)) i = at (rowOf (xs[nat c := x])) i"
      using assms by (cases "i = c") (auto simp: rowOf_def nth_list_update)
  qed
  then show ?thesis using assms by (simp add: writeRow_def rowOf_def)
qed

lemma setCell_boardOf:
  assumes "grid8 g" "onBoard \<lparr> row = r, col = c \<rparr>"
  shows "setCell (boardOf g) r c (cellOf x)
         = Inr (boardOf (g[nat r := (g ! nat r)[nat c := x]]))"
proof -
  from assms have r: "0 \<le> r" "r < 8" and c: "0 \<le> c" "c < 8" by (simp_all add: onBoard_def)
  have l: "length g = 8" using assms(1) by (simp add: grid8_def)
  have lr: "length (g ! nat r) = 8" using assms(1) r by (rule grid8_nth)
  have "writeRow (rowOf (g ! nat r)) c (cellOf x) = rowOf ((g ! nat r)[nat c := x])"
    using c lr by (simp add: writeRow_rowOf)
  then show ?thesis
    using r l by (simp add: setCell_def boardOf_def map_update)
qed

lemma cellOf_Some: "Pc p = cellOf (Some p)"
  by (simp add: cellOf_def)

subsection \<open>Committed moves\<close>

lemma getCell_setCell:
  assumes "setCell b r c v = Inr b'"
  shows "getCell b' r' c' = (if r' = r \<and> c' = c then Inr v else getCell b r' c')"
proof -
  from assms have r: "0 \<le> r" "r < int (length b)"
    and b': "b' = b[nat r := writeRow (b ! nat r) c v]"
    by (auto simp: setCell_def split: if_splits)
  show ?thesis
  proof (cases "0 \<le> r' \<and> r' < int (length b)")
    case False
    then show ?thesis using r by (auto simp: getCell_def b')
  next
    case True
    then have "(nat r' = nat r) = (r' = r)" using r by auto
    then show ?thesis using True r
      by (auto simp: getCell_def b' nth_list_update writeRow_def)
  qed
qed

lemma getCell_copyBoard_Pc:
  "getCell (copyBoard b) r c = Inr (Pc q) \<Longrightarrow> getCell b r c = Inr (Pc q)"
  by (auto simp: getCell_def copyBoard_def copyRow_def split: if_splits)

lemma getCell_initializeEmptyBoard: "getCell initializeEmptyBoard r c \<noteq> Inr (Pc q)"
  by (auto simp: getCell_def initializeEmptyBoard_def rowOf_def cellOf_def split: if_splits)

lemma positionsOnBoard_update_None:
  assumes "positionsOnBoard g"
  shows "positionsOnBoard (g[r := (g ! r)[c := None]])"
proof (cases "r < length g")
  case True
  show ?thesis
  proof (cases "c < length (g ! r)")
    case c: True
    show ?thesis using assms True c
      unfolding positionsOnBoard_def list_all_length
      by (auto simp: nth_list_update)
  next
    case False
    then have "(g ! r)[c := None] = g ! r" by (simp add: list_update_beyond)
    then show ?thesis using assms by simp
  qed
next
  case False
  then show ?thesis using assms by (simp add: list_update_beyond)
qed

lemma midpoint_row_onBoard:
  assumes "onBoard s" "onBoard e"
  shows "0 \<le> row (midpoint s e) \<and> row (midpoint s e) < 8"
proof -
  from assms have "0 \<le> row s" "row s < 8" "0 \<le> row e" "row e < 8" by (simp_all add: onBoard_def)
  then show ?thesis unfolding midpoint_def by simp presburger
qed

lemma handleCapture_onBoard:
  assumes "grid8 g" "onBoard src" "onBoard dst"
  shows "\<exists>res. handleCapture (boardOf g) src dst p = Inr res"
  using midpoint_row_onBoard [OF assms(2,3)]
  by (simp add: handleCapture_boardOf [OF assms(1)])

lemma checkWinCondition_returns:
  assumes "grid8 g" "positionsOnBoard g"
  shows "\<exists>w. checkWinCondition (boardOf g) counts = Inr w"
proof -
  have "scanBoard (boardOf g) allSquares False False
        = Inr (verdict (hasMoves g Red) (hasMoves g Blue))"
    using scanBoard_verdict [OF assms allSquares_bounds, of False False]
    by (simp add: hasMoves_def)
  then show ?thesis by (simp add: checkWinCondition_def)
qed

lemma grid_after_move:
  assumes "grid8 g" "positionsOnBoard g" "onBoard \<lparr> row = r, col = c \<rparr>"
  shows "grid8 (gridAfterMove g cur sel r c)" "positionsOnBoard (gridAfterMove g cur sel r c)"
proof -
  have "onBoard (position (landed cur sel r c))" using assms(3) by (simp add: landed_def)
  then show "grid8 (gridAfterMove g cur sel r c)" "positionsOnBoard (gridAfterMove g cur sel r c)"
    using assms(1,2)
    by (simp_all add: gridAfterMove_def Let_def grid8_update positionsOnBoard_update
          positionsOnBoard_update_None)
qed


lemma checkWinCondition_verdict:
  assumes "grid8 g" "positionsOnBoard g"
  shows "checkWinCondition (boardOf g) counts =
     Inr (if red counts = 0 then \<lparr> gameOver = True, winner = Some Blue \<rparr>
          else if blue counts = 0 then \<lparr> gameOver = True, winner = Some Red \<rparr>
          else verdict (hasMoves g Red) (hasMoves g Blue))"
proof -
  have "scanBoard (boardOf g) allSquares False False
        = Inr (verdict (hasMoves g Red) (hasMoves g Blue))"
    using scanBoard_verdict [OF assms allSquares_bounds, of False False]
    by (simp add: hasMoves_def)
  then show ?thesis by (simp add: checkWinCondition_def)
qed

lemma handleCapture_total:
  assumes "grid8 g" "onBoard src" "onBoard dst"
  shows "handleCapture (boardOf g) src dst p =
     Inr (if qualifyingJump src dst p \<and> opposing g p (midpoint src dst)
          then \<lparr> capturedPiece = pieceAt g (midpoint src dst),
                 capturedSquare = Some (midpoint src dst) \<rparr>
          else noCapture)"
  using midpoint_row_onBoard [OF assms(2,3)]
  by (simp add: handleCapture_boardOf [OF assms(1)])

lemma list_ex_validMoves:
  "list_ex (\<lambda>m. row m = r \<and> col m = c) vs \<longleftrightarrow> \<lparr> row = r, col = c \<rparr> \<in> set vs"
proof -
  have "(\<exists>m \<in> set vs. row m = r \<and> col m = c) \<longleftrightarrow> (\<exists>m \<in> set vs. m = \<lparr> row = r, col = c \<rparr>)"
    by (simp add: Square_eq)
  then show ?thesis by (simp add: list_ex_iff)
qed

lemma movePiece_commit:
  assumes b: "board (gameState s) = boardOf g" and g: "grid8 g" and po: "positionsOnBoard g"
    and sel: "selectedPiece s = Some sel" and ps: "onBoard (position sel)"
    and act: "gameActive (gameState s)"
    and vm: "\<lparr> row = r, col = c \<rparr> \<in> set (validMoves s)" and ob: "onBoard \<lparr> row = r, col = c \<rparr>"
  shows "\<exists>s'. movePiece s r c = Done s'
          \<and> board (gameState s') = boardOf (gridAfterMove g (currentPlayer (gameState s)) sel r c)
          \<and> getCell (board (gameState s')) r c
              = Inr (Pc (landed (currentPlayer (gameState s)) sel r c))
          \<and> currentPlayer (gameState s') = otherPlayer (currentPlayer (gameState s))
          \<and> selectedPiece s' = None \<and> validMoves s' = []"
proof -
  let ?pr = "row (position sel)" and ?pc = "col (position sel)"
  let ?cur = "currentPlayer (gameState s)"
  let ?g1 = "g[nat ?pr := (g ! nat ?pr)[nat ?pc := None]]"
  let ?g2 = "gridAfterMove g ?cur sel r c"
  have src: "onBoard \<lparr> row = ?pr, col = ?pc \<rparr>" using ps by (simp add: onBoard_def)
  have hc: "\<exists>res. handleCapture (boardOf g) \<lparr> row = ?pr, col = ?pc \<rparr> \<lparr> row = r, col = c \<rparr> sel = Inr res"
    using handleCapture_onBoard [OF g src ob] .
  then obtain res where res: "handleCapture (boardOf g) \<lparr> row = ?pr, col = ?pc \<rparr> \<lparr> row = r, col = c \<rparr> sel = Inr res"
    by blast
  have w1: "setCell (boardOf g) ?pr ?pc Null = Inr (boardOf ?g1)"
    using setCell_boardOf [OF g src, of None] by (simp add: cellOf_def)
  have g1: "grid8 ?g1" using g by (rule grid8_update)
  have w2: "setCell (boardOf ?g1) r c (Pc (landed ?cur sel r c)) = Inr (boardOf ?g2)"
    using setCell_boardOf [OF g1 ob, of "Some (landed ?cur sel r c)"]
    by (simp add: cellOf_def gridAfterMove_def Let_def)
  have g2: "grid8 ?g2" "positionsOnBoard ?g2" using grid_after_move [OF g po ob] by simp_all
  have l: "landed ?cur sel r c =
             (if (?cur = Red \<and> r = 7) \<or> (?cur = Blue \<and> r = 0)
              then sel\<lparr> position := \<lparr> row = r, col = c \<rparr>, crowned := True \<rparr>
              else sel\<lparr> position := \<lparr> row = r, col = c \<rparr> \<rparr>)"
    by (simp add: landed_def)
  have rd: "getCell (boardOf ?g2) r c = Inr (Pc (landed ?cur sel r c))"
    by (simp add: getCell_setCell [OF w2])
  show ?thesis
    unfolding movePiece_def Let_def
    by (simp add: sel act list_ex_validMoves vm b res w1 l [symmetric] w2
          checkWinCondition_verdict [OF g2] rd)
qed


lemma movePiece_outcome:
  "stateAfter (movePiece s r c) = s
   \<or> (\<exists>sel nb1 s'. movePiece s r c = Done s' \<and> selectedPiece s = Some sel
        \<and> setCell (copyBoard (board (gameState s))) (row (position sel)) (col (position sel)) Null
            = Inr nb1
        \<and> setCell nb1 r c (Pc (landed (currentPlayer (gameState s)) sel r c))
            = Inr (board (gameState s')))"
proof (cases "selectedPiece s")
  case None
  then show ?thesis by (simp add: movePiece_def stateAfter_def)
next
  case (Some sel)
  show ?thesis
  proof (cases "gameActive (gameState s) \<and> list_ex (\<lambda>m. row m = r \<and> col m = c) (validMoves s)")
    case False
    then show ?thesis using Some by (auto simp: movePiece_def stateAfter_def)
  next
    case True
    let ?gs = "gameState s"
    let ?src = "\<lparr> row = row (position sel), col = col (position sel) \<rparr>"
    show ?thesis
    proof (cases "handleCapture (board ?gs) ?src \<lparr> row = r, col = c \<rparr> sel")
      case (Inl e)
      then show ?thesis using Some True by (simp add: movePiece_def stateAfter_def Let_def)
    next
      case hc: (Inr res)
      show ?thesis
      proof (cases "setCell (copyBoard (board ?gs)) (row (position sel)) (col (position sel)) Null")
        case (Inl e)
        then show ?thesis using Some True hc
          by (simp add: movePiece_def stateAfter_def Let_def)
      next
        case w1: (Inr nb1)
        show ?thesis
        proof (cases "setCell nb1 r c (Pc (landed (currentPlayer ?gs) sel r c))")
          case (Inl e)
          then show ?thesis using Some True hc w1
            by (simp add: movePiece_def stateAfter_def Let_def landed_def)
        next
          case w2: (Inr nb2)
          let ?counts = "\<lparr> red = red (pieceCounts ?gs)
                 - (if currentPlayer ?gs = Blue \<and> capturedPiece res \<noteq> None then 1 else 0),
               blue = blue (pieceCounts ?gs)
                 - (if currentPlayer ?gs = Red \<and> capturedPiece res \<noteq> None then 1 else 0) \<rparr>"
          show ?thesis
          proof (cases "checkWinCondition nb2 ?counts")
            case (Inl e)
            then show ?thesis using Some True hc w1 w2
              by (simp add: movePiece_def stateAfter_def Let_def landed_def)
          next
            case (Inr w)
            then show ?thesis using Some True hc w1 w2
              by (simp add: movePiece_def stateAfter_def Let_def landed_def)
          qed
        qed
      qed
    qed
  qed
qed


lemma placePiece_outcome:
  "stateAfter (placePiece s p r c) = s
   \<or> (\<exists>s'. placePiece s p r c = Done s'
        \<and> setCell (copyBoard (board (gameState s))) r c (Pc (p\<lparr> position := \<lparr> row = r, col = c \<rparr> \<rparr>))
            = Inr (board (gameState s')))"
  by (cases "setCell (copyBoard (board (gameState s))) r c (Pc (p\<lparr> position := \<lparr> row = r, col = c \<rparr> \<rparr>))")
     (simp_all add: placePiece_def stateAfter_def Let_def)

lemma board_after_other_commands:
  "board (gameState (stateAfter (startGame s))) = board (gameState s)"
  "board (gameState (stateAfter (finishPlacement s))) = board (gameState s)"
  "board (gameState (stateAfter (selectPiece s p))) = board (gameState s)"
  "board (gameState (stateAfter (deselectPiece s))) = board (gameState s)"
  "board (gameState (stateAfter (togglePieceSelection s pl t i))) = board (gameState s)"
proof -
  show "board (gameState (stateAfter (startGame s))) = board (gameState s)"
    by (simp add: stateAfter_def startGame_def)
  show "board (gameState (stateAfter (finishPlacement s))) = board (gameState s)"
    by (simp add: stateAfter_def finishPlacement_def)
  show "board (gameState (stateAfter (selectPiece s p))) = board (gameState s)"
    by (cases "getValidMovesForPiece (gameState s) p")
       (simp_all add: stateAfter_def selectPiece_def)
  show "board (gameState (stateAfter (deselectPiece s))) = board (gameState s)"
    by (simp add: stateAfter_def deselectPiece_def)
  show "board (gameState (stateAfter (togglePieceSelection s pl t i))) = board (gameState s)"
    by (simp add: stateAfter_def togglePieceSelection_def Let_def)
qed

lemma step_keeps_crowns:
  assumes "getCell (board (gameState (stateAfter (step s cmd)))) r c = Inr (Pc q)"
    and "\<not> crowned q"
  shows "getCell (board (gameState s)) r c = Inr (Pc q)
         \<or> (\<exists>sel. cmd = MovePiece r c \<and> selectedPiece s = Some sel \<and> \<not> crowned sel
                 \<and> q = sel\<lparr> position := \<lparr> row = r, col = c \<rparr> \<rparr>)
         \<or> (\<exists>p. cmd = PlacePiece p r c \<and> \<not> crowned p
                 \<and> q = p\<lparr> position := \<lparr> row = r, col = c \<rparr> \<rparr>)"
proof (cases cmd)
  case ResetGame
  then show ?thesis using assms(1)
    by (simp add: resetGame_def stateAfter_def getCell_initializeEmptyBoard)
next
  case FinishDraft
  then show ?thesis using assms(1)
    by (auto simp: finishDraft_def stateAfter_def Let_def setupBoardForPlacement_def
          getCell_initializeEmptyBoard split: if_splits)
next
  case (MovePiece r' c')
  show ?thesis
  proof (cases "stateAfter (movePiece s r' c') = s")
    case True
    then show ?thesis using assms(1) MovePiece by simp
  next
    case False
    then obtain sel nb1 s' where d: "movePiece s r' c' = Done s'"
      and sel: "selectedPiece s = Some sel"
      and w1: "setCell (copyBoard (board (gameState s))) (row (position sel)) (col (position sel)) Null
                = Inr nb1"
      and w2: "setCell nb1 r' c' (Pc (landed (currentPlayer (gameState s)) sel r' c'))
                = Inr (board (gameState s'))"
      using movePiece_outcome [of s r' c'] by blast
    from assms(1) MovePiece d have rd: "getCell (board (gameState s')) r c = Inr (Pc q)"
      by (simp add: stateAfter_def)
    show ?thesis
    proof (cases "r = r' \<and> c = c'")
      case True
      with rd have "q = landed (currentPlayer (gameState s)) sel r' c'"
        by (simp add: getCell_setCell [OF w2])
      with assms(2) have "\<not> crowned sel \<and> q = sel\<lparr> position := \<lparr> row = r', col = c' \<rparr> \<rparr>"
        by (auto simp: landed_def split: if_splits)
      then show ?thesis using MovePiece sel True by simp
    next
      case False
      with rd have "getCell nb1 r c = Inr (Pc q)"
        by (simp add: getCell_setCell [OF w2])
      then have "getCell (copyBoard (board (gameState s))) r c = Inr (Pc q)"
        by (simp add: getCell_setCell [OF w1] split: if_splits)
      then have "getCell (board (gameState s)) r c = Inr (Pc q)"
        by (rule getCell_copyBoard_Pc)
      then show ?thesis by simp
    qed
  qed
next
  case (PlacePiece p r' c')
  show ?thesis
  proof (cases "stateAfter (placePiece s p r' c') = s")
    case True
    then show ?thesis using assms(1) PlacePiece by simp
  next
    case False
    then obtain s' where d: "placePiece s p r' c' = Done s'"
      and w: "setCell (copyBoard (board (gameState s))) r' c'
                (Pc (p\<lparr> position := \<lparr> row = r', col = c' \<rparr> \<rparr>)) = Inr (board (gameState s'))"
      using placePiece_outcome [of s p r' c'] by blast
    from assms(1) PlacePiece d have rd: "getCell (board (gameState s')) r c = Inr (Pc q)"
      by (simp add: stateAfter_def)
    show ?thesis
    proof (cases "r = r' \<and> c = c'")
      case True
      with rd have "q = p\<lparr> position := \<lparr> row = r', col = c' \<rparr> \<rparr>"
        by (simp add: getCell_setCell [OF w])
      with assms(2) show ?thesis using PlacePiece True by simp
    next
      case False
      with rd have "getCell (copyBoard (board (gameState s))) r c = Inr (Pc q)"
        by (simp add: getCell_setCell [OF w])
      then have "getCell (board (gameState s)) r c = Inr (Pc q)"
        by (rule getCell_copyBoard_Pc)
      then show ?thesis by simp
    qed
  qed
next
  case StartGame
  then show ?thesis using assms(1) by (simp add: board_after_other_commands)
next
  case FinishPlacement
  then show ?thesis using assms(1) by (simp add: board_after_other_commands)
next
  case (SelectPiece p)
  then show ?thesis using assms(1) by (simp add: board_after_other_commands)
next
  case DeselectPiece
  then show ?thesis using assms(1) by (simp add: board_after_other_commands)
next
  case (TogglePieceSelection pl t i)
  then show ?thesis using assms(1) by (simp add: board_after_other_commands)
qed


subsection \<open>The validator and the computer opponent on a grid\<close>

lemma midpoint_onBoard:
  assumes "onBoard s" "onBoard e"
  shows "onBoard (midpoint s e)"
proof -
  from assms have "0 \<le> row s" "row s < 8" "0 \<le> row e" "row e < 8"
    "0 \<le> col s" "col s < 8" "0 \<le> col e" "col e < 8" by (simp_all add: onBoard_def)
  then have "0 \<le> row s + (row e - row s) div 2" "row s + (row e - row s) div 2 < 8"
    "0 \<le> col s + (col e - col s) div 2" "col s + (col e - col s) div 2 < 8"
    by presburger+
  then show ?thesis by (simp add: onBoard_def midpoint_def)
qed

lemma isValidNormalMove_boardOf:
  assumes "grid8 g" "onBoard src" "onBoard dst"
  shows "isValidNormalMove (boardOf g) src dst p = Inr (validNormal g src dst p)"
proof -
  have m: "getCell (boardOf g) (row src + (row dst - row src) div 2)
             (col src + (col dst - col src) div 2)
           = Inr (cellOf (pieceAt g (midpoint src dst)))"
    using getCell_onBoard [OF assms(1) midpoint_onBoard [OF assms(2,3)]]
    by (simp add: midpoint_def)
  have f: "(crowned p \<or> player p = Red \<and> 0 < row dst - row src
             \<or> player p = Blue \<and> row dst - row src < 0) = forwardOk p (row dst - row src)"
    by (auto simp: forwardOk_def)
  show ?thesis
    unfolding isValidNormalMove_def Let_def m
    by (auto simp: validNormal_def opposing_def f forwardOk_def split: option.splits)
qed


lemma isValidPancakeMove_boardOf:
  assumes "grid8 g" "onBoard src" "onBoard dst"
  shows "isValidPancakeMove (boardOf g) src dst p = Inr (validPancake g src dst p)"
proof -
  have d: "getCell (boardOf g) (row dst) (col dst) = Inr (cellOf (pieceAt g dst))"
    using assms(1,3) by (rule getCell_onBoard)
  have m: "row dst = row src \<Longrightarrow>
           getCell (boardOf g) (row src) (col src + (col dst - col src) div 2)
           = Inr (cellOf (pieceAt g (midpoint src dst)))"
    using getCell_onBoard [OF assms(1) midpoint_onBoard [OF assms(2,3)]]
    by (simp add: midpoint_def)
  show ?thesis
  proof (cases "validNormal g src dst p")
    case True
    then show ?thesis
      by (simp add: isValidPancakeMove_def Let_def isValidNormalMove_boardOf [OF assms]
            validPancake_def)
  next
    case False
    show ?thesis
    proof (cases "row dst = row src")
      case True
      with d have d': "getCell (boardOf g) (row src) (col dst) = Inr (cellOf (pieceAt g dst))"
        by simp
      from True show ?thesis using False m
        by (auto simp: isValidPancakeMove_def Let_def isValidNormalMove_boardOf [OF assms]
              validPancake_def d' opposing_def split: option.splits)
    next
      case False
      then show ?thesis using \<open>\<not> validNormal g src dst p\<close>
        by (simp add: isValidPancakeMove_def Let_def isValidNormalMove_boardOf [OF assms]
              validPancake_def)
    qed
  qed
qed

lemma isValidMove_boardOf:
  assumes "grid8 g" "onBoard src" "onBoard dst"
  shows "isValidMove (boardOf g) src dst p = Inr (accepted g src dst p)"
proof -
  have d: "getCell (boardOf g) (row dst) (col dst) = Inr (cellOf (pieceAt g dst))"
    using assms(1,3) by (rule getCell_onBoard)
  have bnd: "\<not> (row dst < 0 \<or> row dst > 7 \<or> col dst < 0 \<or> col dst > 7)"
    using assms(3) by (auto simp: onBoard_def)
  show ?thesis
    unfolding isValidMove_def d
    by (cases "ptype p")
       (simp_all add: bnd accepted_def isValidBagelMove_def
          isValidNormalMove_boardOf [OF assms] isValidPancakeMove_boardOf [OF assms])
qed


lemma abs_diff_1: "\<bar>x - y\<bar> = 1 \<longleftrightarrow> x = y + 1 \<or> x = y - 1" for x y :: int
  by arith

lemma abs_diff_2: "\<bar>x - y\<bar> = 2 \<longleftrightarrow> x = y + 2 \<or> x = y - 2" for x y :: int
  by arith

lemma set_possibleMoves:
  "m \<in> set (possibleMoves p) \<longleftrightarrow>
     (\<bar>row m - row (position p)\<bar> = 1 \<and> \<bar>col m - col (position p)\<bar> = 1)
     \<or> (row m = row (position p) \<and> \<bar>col m - col (position p)\<bar> = 1)"
  unfolding abs_diff_1
  by (simp add: possibleMoves_def Square_eq Let_def) blast

lemma captureDirections_midpoint:
  "j \<in> set (captureDirections p) \<Longrightarrow> jumpMid j = midpoint (position p) (jumpEnd j)"
  by (auto simp: captureDirections_def Let_def jumpMid_def jumpEnd_def midpoint_def)

lemma jumpEnd_captureDirections:
  "m \<in> jumpEnd ` set (captureDirections p) \<longleftrightarrow>
     (\<bar>row m - row (position p)\<bar> = 2 \<and> \<bar>col m - col (position p)\<bar> = 2)
     \<or> (row m = row (position p) \<and> \<bar>col m - col (position p)\<bar> = 2)"
  unfolding abs_diff_2
  by (simp add: captureDirections_def Square_eq Let_def jumpEnd_def eq_commute [of m]) blast

lemma ex_captureDirections:
  "(\<exists>j \<in> set (captureDirections p). jumpEnd j = m \<and> R (jumpMid j)) \<longleftrightarrow>
     ((\<bar>row m - row (position p)\<bar> = 2 \<and> \<bar>col m - col (position p)\<bar> = 2)
      \<or> (row m = row (position p) \<and> \<bar>col m - col (position p)\<bar> = 2))
     \<and> R (midpoint (position p) m)"
proof -
  have "(\<exists>j \<in> set (captureDirections p). jumpEnd j = m \<and> R (jumpMid j))
        \<longleftrightarrow> m \<in> jumpEnd ` set (captureDirections p) \<and> R (midpoint (position p) m)"
    using captureDirections_midpoint by fastforce
  then show ?thesis by (simp only: jumpEnd_captureDirections)
qed

lemma set_purePancakeMoves:
  "m \<in> set (purePancakeMoves g p) \<longleftrightarrow>
     onBoard m \<and> pieceAt g m = None \<and>
     ((\<bar>row m - row (position p)\<bar> = 1 \<and> \<bar>col m - col (position p)\<bar> = 1)
      \<or> (row m = row (position p) \<and> \<bar>col m - col (position p)\<bar> = 1)
      \<or> (((\<bar>row m - row (position p)\<bar> = 2 \<and> \<bar>col m - col (position p)\<bar> = 2)
           \<or> (row m = row (position p) \<and> \<bar>col m - col (position p)\<bar> = 2))
          \<and> opposing g p (midpoint (position p) m)))"
proof -
  have "m \<in> set (purePancakeMoves g p) \<longleftrightarrow>
          (m \<in> set (possibleMoves p) \<and> onBoard m \<and> pieceAt g m = None)
          \<or> (\<exists>j \<in> set (captureDirections p). jumpEnd j = m
                \<and> (onBoard m \<and> pieceAt g m = None) \<and> opposing g p (jumpMid j))"
    by (auto simp: purePancakeMoves_def)
  also have "(\<exists>j \<in> set (captureDirections p). jumpEnd j = m
                \<and> (onBoard m \<and> pieceAt g m = None) \<and> opposing g p (jumpMid j))
        \<longleftrightarrow> (onBoard m \<and> pieceAt g m = None)
            \<and> (\<exists>j \<in> set (captureDirections p). jumpEnd j = m \<and> opposing g p (jumpMid j))"
    by blast
  finally show ?thesis
    by (simp only: set_possibleMoves ex_captureDirections) blast
qed

lemma accepted_normal_generated:
  assumes "onBoard m" "pieceAt g m = None" "validNormal g (position p) m p"
  shows "m \<in> set (pureNormalMoves g p)"
  using assms by (simp add: set_pureNormalMoves validNormal_def)

lemma accepted_pancake_generated:
  assumes "onBoard m" "pieceAt g m = None" "validPancake g (position p) m p"
  shows "m \<in> set (purePancakeMoves g p)"
  using assms by (auto simp: set_purePancakeMoves validPancake_def validNormal_def)


lemma getAIPieces_boardOf:
  assumes "board gs = boardOf g" "grid8 g" "p \<in> set (getAIPieces gs)"
  shows "player p = playerColor \<and> (\<exists>s. onBoard s \<and> pieceAt g s = Some p)"
proof -
  from assms(3) obtain rw c where rw: "rw \<in> set (boardOf g)" and c: "c < len rw"
    and cell: "p \<in> set (case at rw (int c) of
                           Pc q \<Rightarrow> if player q = playerColor then [q] else []
                         | _ \<Rightarrow> [])"
    by (auto simp: getAIPieces_def assms(1))
  from rw obtain i where i: "i < length g" and rwi: "rw = rowOf (g ! i)"
    by (auto simp: boardOf_def in_set_conv_nth)
  from assms(2) i have l: "length g = 8" "length (g ! i) = 8"
    by (auto simp: grid8_def list_all_length)
  from c rwi l have c8: "c < 8" by (simp add: rowOf_def)
  then have a: "at rw (int c) = cellOf (g ! i ! c)" using rwi l by (simp add: rowOf_def)
  from cell have pc: "at rw (int c) = Pc p" and pl: "player p = playerColor"
    by (auto split: cell.splits if_splits)
  from pc a have "g ! i ! c = Some p" by simp
  moreover have "onBoard \<lparr> row = int i, col = int c \<rparr>" using i l c8 by (simp add: onBoard_def)
  ultimately have "pieceAt g \<lparr> row = int i, col = int c \<rparr> = Some p"
    by (simp add: pieceAt_def)
  with pl \<open>onBoard \<lparr> row = int i, col = int c \<rparr>\<close> show ?thesis by blast
qed

lemma squares8_onBoard: "sq \<in> set squares8 \<Longrightarrow> onBoard sq"
  using allSquares_bounds by (auto simp: squares8_def onBoard_def)

lemma getValidMovesForPieceAI_boardOf:
  assumes "grid8 g" "onBoard (position p)"
  shows "getValidMovesForPieceAI p (boardOf g)
         = Inr (filter (\<lambda>sq. accepted g (position p) sq p) squares8)"
  unfolding getValidMovesForPieceAI_def
proof (rule filterE_pure)
  fix sq assume "sq \<in> set squares8"
  then have ob: "onBoard sq" by (rule squares8_onBoard)
  have c: "getCell (boardOf g) (row sq) (col sq) = Inr (cellOf (pieceAt g sq))"
    using assms(1) ob by (rule getCell_onBoard)
  have "map_option player (pieceAt g sq) = Some (player p) \<Longrightarrow> \<not> accepted g (position p) sq p"
    by (auto simp: accepted_def)
  then show "bindE (getCell (boardOf g) (row sq) (col sq))
          (\<lambda>targetPiece.
              if optPlayer targetPiece = Some (player p) then Inr False
              else isValidMove (boardOf g) (position p) sq p)
        = Inr (accepted g (position p) sq p)"
    by (simp add: c isValidMove_boardOf [OF assms ob])
qed

lemma collectMoves_boardOf:
  assumes "grid8 g" "\<forall>p \<in> set ps. onBoard (position p)"
  shows "\<exists>cands. collectMoves (boardOf g) ps = Inr cands
          \<and> (\<forall>cd \<in> set cands. cand_piece cd \<in> set ps
                \<and> onBoard (cand_move cd)
                \<and> accepted g (position (cand_piece cd)) (cand_move cd) (cand_piece cd))
          \<and> (cands = [] \<longleftrightarrow>
               (\<forall>p \<in> set ps. \<forall>sq \<in> set squares8. \<not> accepted g (position p) sq p))"
  using assms(2)
proof (induction ps)
  case Nil
  show ?case by simp
next
  case (Cons p ps)
  then obtain cands where c: "collectMoves (boardOf g) ps = Inr cands"
    and cs: "\<forall>cd \<in> set cands. cand_piece cd \<in> set ps
                \<and> onBoard (cand_move cd)
                \<and> accepted g (position (cand_piece cd)) (cand_move cd) (cand_piece cd)"
    and ce: "cands = [] \<longleftrightarrow>
               (\<forall>p \<in> set ps. \<forall>sq \<in> set squares8. \<not> accepted g (position p) sq p)"
    by auto
  from Cons.prems have "onBoard (position p)" by simp
  then have v: "getValidMovesForPieceAI p (boardOf g)
         = Inr (filter (\<lambda>sq. accepted g (position p) sq p) squares8)"
    using assms(1) getValidMovesForPieceAI_boardOf by blast
  let ?new = "map (\<lambda>m. \<lparr> cand_piece = p, cand_move = m \<rparr>)
                (filter (\<lambda>sq. accepted g (position p) sq p) squares8)"
  have r: "collectMoves (boardOf g) (p # ps) = Inr (?new @ cands)"
    by (simp add: v c)
  have n: "\<forall>cd \<in> set ?new. cand_piece cd = p \<and> onBoard (cand_move cd)
              \<and> accepted g (position (cand_piece cd)) (cand_move cd) (cand_piece cd)"
    by (auto simp: squares8_onBoard)
  have ne: "?new = [] \<longleftrightarrow> (\<forall>sq \<in> set squares8. \<not> accepted g (position p) sq p)"
    by (auto simp: filter_empty_conv)
  show ?case
    unfolding r using n cs ce ne by (intro exI [of _ "?new @ cands"]) auto
qed


lemma getBagelMoves_boardOf:
  assumes "grid8 g" and "onBoard (position p)"
    and "\<forall>mv \<in> set h. onBoard (move_from mv)"
  shows "getBagelMoves (boardOf g) p h =
       Inr (pureNormalMoves g p @
            (if h \<noteq> [] \<and> player (move_piece (last h)) \<noteq> player p
                \<and> pieceAt g (move_from (last h)) = None
                \<and> \<bar>row (move_from (last h)) - row (position p)\<bar>
                    = \<bar>col (move_from (last h)) - col (position p)\<bar>
                \<and> (crowned p
                    \<or> (player p = Red \<and> row (move_from (last h)) \<ge> row (position p))
                    \<or> (player p = Blue \<and> row (move_from (last h)) \<le> row (position p)))
             then [move_from (last h)] else []))"
proof -
  let ?t = "move_from (last h)"
  let ?reach = "\<bar>row ?t - row (position p)\<bar> = \<bar>col ?t - col (position p)\<bar>
                \<and> (crowned p
                    \<or> (player p = Red \<and> row ?t \<ge> row (position p))
                    \<or> (player p = Blue \<and> row ?t \<le> row (position p)))"
  have n: "getNormalMoves (boardOf g) p = Inr (pureNormalMoves g p)"
    using assms(1,2) by (rule getNormalMoves_boardOf)
  show ?thesis
  proof (cases "h = []")
    case True
    then show ?thesis by (simp add: getBagelMoves_def n)
  next
    case False
    then have l: "h ! (length h - 1) = last h" by (simp add: last_conv_nth)
    from False assms(3) have ob: "onBoard ?t" by simp
    have c: "getCell (boardOf g) (row ?t) (col ?t) = Inr (cellOf (pieceAt g ?t))"
      using assms(1) ob by (rule getCell_onBoard)
    have d: "isValidDiagonalMove (position p) ?t (crowned p) (player p) \<longleftrightarrow> ?reach"
      by (rule isValidDiagonalMove_iff)
    have "getBagelMoves (boardOf g) p h =
        bindE (if player (move_piece (last h)) \<noteq> player p
                   then (if ?reach
                            then bindE (getCell (boardOf g) (row ?t) (col ?t))
                                   (\<lambda>v. Inr (if v = Null then [?t] else []))
                            else Inr [])
                   else Inr [])
         (\<lambda>specialMoves. Inr (pureNormalMoves g p @ specialMoves))"
      using False
      by (simp only: getBagelMoves_def n bindE_Inr l Let_def d length_greater_0_conv if_True
            not_False_eq_True)
    also have "\<dots> = Inr (pureNormalMoves g p @
            (if h \<noteq> [] \<and> player (move_piece (last h)) \<noteq> player p
                \<and> pieceAt g ?t = None \<and> ?reach
             then [?t] else []))"
      using False by (simp only: c special_if simp_thms)
    finally show ?thesis .
  qed
qed

lemma accepted_in_generator:
  assumes "board gs = boardOf g" "grid8 g" "onBoard (position p)" "onBoard m"
    and "accepted g (position p) m p"
    and "\<forall>mv \<in> set (moveHistory gs). onBoard (move_from mv)"
  shows "\<exists>ms. getValidMovesForPiece gs p = Inr ms \<and> m \<in> set ms"
proof -
  from assms(5) have e: "pieceAt g m = None" by (simp add: accepted_def)
  show ?thesis
  proof (cases "ptype p")
    case Normal
    with assms(5) have "validNormal g (position p) m p" by (simp add: accepted_def)
    then have "m \<in> set (pureNormalMoves g p)"
      using assms(4) e by (intro accepted_normal_generated)
    then show ?thesis
      using Normal by (simp add: getValidMovesForPiece_def assms(1) getNormalMoves_boardOf [OF assms(2,3)])
  next
    case Bagel
    with assms(5) have "validNormal g (position p) m p" by (simp add: accepted_def)
    then have "m \<in> set (pureNormalMoves g p)"
      using assms(4) e by (intro accepted_normal_generated)
    then show ?thesis
      using Bagel
      by (simp add: getValidMovesForPiece_def assms(1) getBagelMoves_boardOf [OF assms(2,3,6)])
  next
    case Pancake
    with assms(5) have "validPancake g (position p) m p" by (simp add: accepted_def)
    then have "m \<in> set (purePancakeMoves g p)"
      using assms(4) e by (intro accepted_pancake_generated)
    then show ?thesis
      using Pancake
      by (simp add: getValidMovesForPiece_def assms(1) getPancakeMoves_boardOf [OF assms(2,3)])
  next
    case Bomb
    with assms(5) show ?thesis by (simp add: accepted_def)
  next
    case Vinyl
    with assms(5) show ?thesis by (simp add: accepted_def)
  next
    case FlyingDisk
    with assms(5) show ?thesis by (simp add: accepted_def)
  qed
qed

lemma selectMove_member:
  assumes "possible \<noteq> []"
  shows "\<exists>cd. selectMove d rnd possible = Some cd \<and> cd \<in> set possible"
proof -
  have r: "\<And>xs :: Candidate list. xs \<noteq> [] \<Longrightarrow> xs ! randomIndex rnd (length xs) \<in> set xs"
    by (simp add: randomIndex_def)
  have h: "\<And>xs :: Candidate list. xs \<noteq> [] \<Longrightarrow> xs ! 0 \<in> set xs"
    by simp
  have f: "\<And>P. filter P possible \<noteq> [] \<Longrightarrow> filter P possible ! 0 \<in> set possible"
    using h by (metis filter_is_subset subsetD)
  show ?thesis
  proof (cases d)
    case Easy
    then show ?thesis using assms r by (simp add: selectMove_def Let_def)
  next
    case Medium
    show ?thesis
    proof (cases "filter isCapturing possible = []")
      case True
      then show ?thesis using Medium assms r by (simp add: selectMove_def Let_def)
    next
      case False
      then have "filter isCapturing possible ! randomIndex rnd (length (filter isCapturing possible))
                 \<in> set (filter isCapturing possible)" by (rule r)
      then show ?thesis using Medium assms False by (simp add: selectMove_def Let_def)
    qed
  next
    case Hard
    let ?fw = "filter (\<lambda>m. \<not> crowned (cand_piece m)
                                    \<and> row (cand_move m) < row (position (cand_piece m))) possible"
    show ?thesis
    proof (cases "filter isCapturing possible = []")
      case False
      let ?sorted = "sort_key (\<lambda>m. getPieceValue (ptype (cand_piece m))) (filter isCapturing possible)"
      from False have "?sorted \<noteq> []" by (metis length_sort list.size(3) length_0_conv)
      then have "?sorted ! 0 \<in> set ?sorted" by (rule h)
      then have "?sorted ! 0 \<in> set possible" by simp
      then show ?thesis using Hard assms False by (simp add: selectMove_def Let_def)
    next
      case True
      show ?thesis
      proof (cases "?fw = []")
        case fw: True
        then show ?thesis using Hard assms r True by (simp add: selectMove_def Let_def)
      next
        case fw: False
        have s: "set ?fw \<subseteq> set possible" by auto
        have 1: "\<And>P. filter P ?fw \<noteq> [] \<Longrightarrow> filter P ?fw ! 0 \<in> set possible"
        proof -
          fix P assume "filter P ?fw \<noteq> []"
          then have "filter P ?fw ! 0 \<in> set (filter P ?fw)" by (rule h)
          then show "filter P ?fw ! 0 \<in> set possible" by auto
        qed
        have 2: "?fw ! 0 \<in> set possible" using h [OF fw] s by blast
        show ?thesis using Hard assms True fw 1 2
          by (simp add: selectMove_def Let_def)
      qed
    qed
  qed
qed


lemma getNextMove_boardOf:
  assumes b: "board gs = boardOf g" and g: "grid8 g" and po: "positionsOnBoard g"
    and h: "\<forall>mv \<in> set (moveHistory gs). onBoard (move_from mv)"
  shows "(currentPlayer gs \<noteq> playerColor \<or> \<not> aiCanMove gs \<longrightarrow> getNextMove d rnd gs = Inr None)
     \<and> (currentPlayer gs = playerColor \<and> aiCanMove gs \<longrightarrow>
          (\<exists>p m. getNextMove d rnd gs
                    = Inr (Some \<lparr> move_piece = p, move_from = position p, move_to = m,
                                  move_captured = None \<rparr>)
                 \<and> p \<in> set (getAIPieces gs) \<and> player p = playerColor
                 \<and> (\<exists>ms. getValidMovesForPiece gs p = Inr ms \<and> m \<in> set ms)))"
proof -
  let ?ps = "getAIPieces gs"
  have ps: "\<forall>p \<in> set ?ps. onBoard (position p)"
    using getAIPieces_boardOf [OF b g] positionsOnBoard_pieceAt [OF g po] by blast
  have pl: "\<forall>p \<in> set ?ps. player p = playerColor"
    using getAIPieces_boardOf [OF b g] by blast
  from collectMoves_boardOf [OF g ps]
  obtain cands where c: "collectMoves (boardOf g) ?ps = Inr cands"
    and cs: "\<forall>cd \<in> set cands. cand_piece cd \<in> set ?ps
                \<and> onBoard (cand_move cd)
                \<and> accepted g (position (cand_piece cd)) (cand_move cd) (cand_piece cd)"
    and ce: "cands = [] \<longleftrightarrow>
               (\<forall>p \<in> set ?ps. \<forall>sq \<in> set squares8. \<not> accepted g (position p) sq p)"
    by blast
  have "aiCanMove gs \<longleftrightarrow> (\<exists>p \<in> set ?ps. \<exists>sq \<in> set squares8. accepted g (position p) sq p)"
  proof -
    have "\<And>p. p \<in> set ?ps \<Longrightarrow>
            (case getValidMovesForPieceAI p (board gs) of Inl e \<Rightarrow> False | Inr ms \<Rightarrow> ms \<noteq> [])
            \<longleftrightarrow> (\<exists>sq \<in> set squares8. accepted g (position p) sq p)"
      using ps by (simp add: b getValidMovesForPieceAI_boardOf [OF g] filter_empty_conv)
    then show ?thesis by (simp add: aiCanMove_def list_ex_iff)
  qed
  with ce have can: "aiCanMove gs \<longleftrightarrow> cands \<noteq> []" by blast
  have none: "cands = [] \<Longrightarrow> getNextMove d rnd gs = Inr None"
    by (simp add: getNextMove_def Let_def b c)
  show ?thesis
  proof (cases "currentPlayer gs = playerColor \<and> cands \<noteq> []")
    case False
    then show ?thesis using can none by (auto simp: getNextMove_def)
  next
    case True
    then obtain cd where sm: "selectMove d rnd cands = Some cd" and cd: "cd \<in> set cands"
      using selectMove_member by blast
    from True cs ce have ne: "?ps \<noteq> []" by auto
    have r: "getNextMove d rnd gs
             = Inr (Some \<lparr> move_piece = cand_piece cd, move_from = position (cand_piece cd),
                           move_to = cand_move cd, move_captured = None \<rparr>)"
      using True ne by (simp add: getNextMove_def Let_def b c sm)
    from cd cs have p1: "cand_piece cd \<in> set ?ps" and p2: "onBoard (cand_move cd)"
      and p3: "accepted g (position (cand_piece cd)) (cand_move cd) (cand_piece cd)"
      by auto
    from p1 ps have p4: "onBoard (position (cand_piece cd))" by blast
    have "\<exists>ms. getValidMovesForPiece gs (cand_piece cd) = Inr ms \<and> cand_move cd \<in> set ms"
      using b g p4 p2 p3 h by (rule accepted_in_generator)
    with r p1 pl True can show ?thesis by blast
  qed
qed


lemma replicate8: "replicate 8 x = [x, x, x, x, x, x, x, x]"
  by (simp add: eval_nat_numeral)

lemma upt8: "[0..<8] = [0, 1, 2, 3, 4, 5, 6, 7]"
  by (simp add: eval_nat_numeral upt_rec)

lemma squares8_eval: "squares8 = [\<lparr>row = 0, col = 0\<rparr>, \<lparr>row = 0, col = 1\<rparr>, \<lparr>row = 0, col = 2\<rparr>, \<lparr>row = 0, col = 3\<rparr>,
  \<lparr>row = 0, col = 4\<rparr>, \<lparr>row = 0, col = 5\<rparr>, \<lparr>row = 0, col = 6\<rparr>, \<lparr>row = 0, col = 7\<rparr>,
  \<lparr>row = 1, col = 0\<rparr>, \<lparr>row = 1, col = 1\<rparr>, \<lparr>row = 1, col = 2\<rparr>, \<lparr>row = 1, col = 3\<rparr>,
  \<lparr>row = 1, col = 4\<rparr>, \<lparr>row = 1, col = 5\<rparr>, \<lparr>row = 1, col = 6\<rparr>, \<lparr>row = 1, col = 7\<rparr>,
  \<lparr>row = 2, col = 0\<rparr>, \<lparr>row = 2, col = 1\<rparr>, \<lparr>row = 2, col = 2\<rparr>, \<lparr>row = 2, col = 3\<rparr>,
  \<lparr>row = 2, col = 4\<rparr>, \<lparr>row = 2, col = 5\<rparr>, \<lparr>row = 2, col = 6\<rparr>, \<lparr>row = 2, col = 7\<rparr>,
  \<lparr>row = 3, col = 0\<rparr>, \<lparr>row = 3, col = 1\<rparr>, \<lparr>row = 3, col = 2\<rparr>, \<lparr>row = 3, col = 3\<rparr>,
  \<lparr>row = 3, col = 4\<rparr>, \<lparr>row = 3, col = 5\<rparr>, \<lparr>row = 3, col = 6\<rparr>, \<lparr>row = 3, col = 7\<rparr>,
  \<lparr>row = 4, col = 0\<rparr>, \<lparr>row = 4, col = 1\<rparr>, \<lparr>row = 4, col = 2\<rparr>, \<lparr>row = 4, col = 3\<rparr>,
  \<lparr>row = 4, col = 4\<rparr>, \<lparr>row = 4, col = 5\<rparr>, \<lparr>row = 4, col = 6\<rparr>, \<lparr>row = 4, col = 7\<rparr>,
  \<lparr>row = 5, col = 0\<rparr>, \<lparr>row = 5, col = 1\<rparr>, \<lparr>row = 5, col = 2\<rparr>, \<lparr>row = 5, col = 3\<rparr>,
  \<lparr>row = 5, col = 4\<rparr>, \<lparr>row = 5, col = 5\<rparr>, \<lparr>row = 5, col = 6\<rparr>, \<lparr>row = 5, col = 7\<rparr>,
  \<lparr>row = 6, col = 0\<rparr>, \<lparr>row = 6, col = 1\<rparr>, \<lparr>row = 6, col = 2\<rparr>, \<lparr>row = 6, col = 3\<rparr>,
  \<lparr>row = 6, col = 4\<rparr>, \<lparr>row = 6, col = 5\<rparr>, \<lparr>row = 6, col = 6\<rparr>, \<lparr>row = 6, col = 7\<rparr>,
  \<lparr>row = 7, col = 0\<rparr>, \<lparr>row = 7, col = 1\<rparr>, \<lparr>row = 7, col = 2\<rparr>, \<lparr>row = 7, col = 3\<rparr>,
  \<lparr>row = 7, col = 4\<rparr>, \<lparr>row = 7, col = 5\<rparr>, \<lparr>row = 7, col = 6\<rparr>, \<lparr>row = 7, col = 7\<rparr>]"
  by (simp add: squares8_def allSquares_eval)

text \<open>For a normal piece on the board the validator and the generator agree.\<close>

lemma isValidMove_normal_agrees:
  assumes "grid8 g" and "ptype p = Normal" and "onBoard (position p)" and "onBoard dst"
  shows "isValidMove (boardOf g) (position p) dst p = Inr (dst \<in> set (pureNormalMoves g p))"
  using assms(2,4)
  by (simp add: isValidMove_boardOf [OF assms(1,3,4)] accepted_def set_pureNormalMoves
        validNormal_def)

text \<open>
  With the blue pancake on (0,0) and the blue bomb on (0,1), the AI's helper finds no
  destination for either piece.
\<close>

lemma stuckState_pieces: "getAIPieces stuckState = [bluePancake00, blueBomb01]"
  by (simp add: getAIPieces_def stuckState_def stateWith_def playerColor_def
        boardOf_def rowOf_def cellOf_def emptyGrid_def bluePancake00_def blueBomb01_def
        mkPiece_def Let_def replicate8 upt8)

lemma stuckState_valid:
  "getValidMovesForPieceAI bluePancake00 (board stuckState) = Inr []"
  "getValidMovesForPieceAI blueBomb01 (board stuckState) = Inr []"
  by (simp_all add: getValidMovesForPieceAI_def squares8_eval stuckState_def stateWith_def
        bluePancake00_def blueBomb01_def eval_valid eval_defs)

text \<open>The equations that evaluate the commands of a game on a concrete state.\<close>

lemmas run_defs = blueToMove_def stateWith_def initialProvider_def selectPiece_def
  getValidMovesForPiece_def movePiece_def stateAfter_def checkWinCondition_def allSquares_eval
  scanMoves_def setCell_def writeRow_def copyBoard_def copyRow_def finishPlacement_def
  otherPlayer_def

section \<open>The claims\<close>

text \<open>
  Claim C3. On a board of eight by eight squares, for a normal piece whose position is on
  the board, \<open>getNormalMoves\<close> returns (it raises nothing), and every square it returns is
  empty on that board, has row and column in 0..7, lies in a direction the piece may move
  (any when crowned; otherwise towards higher rows for red and lower rows for blue), and is
  diagonally one step away, or two steps away with a piece of the opponent on the square in
  between.
\<close>

theorem getNormalMoves_destinations:
  assumes "grid8 g" and "ptype p = Normal" and "onBoard (position p)"
  shows "\<exists>ms. getNormalMoves (boardOf g) p = Inr ms \<and>
           (\<forall>m \<in> set ms.
              pieceAt g m = None \<and> 0 \<le> row m \<and> row m \<le> 7 \<and> 0 \<le> col m \<and> col m \<le> 7 \<and>
              (crowned p \<or> (player p = Red \<and> row m > row (position p))
                         \<or> (player p = Blue \<and> row m < row (position p))) \<and>
              ((\<bar>row m - row (position p)\<bar> = 1 \<and> \<bar>col m - col (position p)\<bar> = 1)
               \<or> (\<bar>row m - row (position p)\<bar> = 2 \<and> \<bar>col m - col (position p)\<bar> = 2
                   \<and> (\<exists>q. pieceAt g (midpoint (position p) m) = Some q
                            \<and> player q \<noteq> player p))))"
proof -
  have "getNormalMoves (boardOf g) p = Inr (pureNormalMoves g p)"
    using assms(1,3) by (rule getNormalMoves_boardOf)
  moreover have "\<forall>m \<in> set (pureNormalMoves g p).
              pieceAt g m = None \<and> 0 \<le> row m \<and> row m \<le> 7 \<and> 0 \<le> col m \<and> col m \<le> 7 \<and>
              (crowned p \<or> (player p = Red \<and> row m > row (position p))
                         \<or> (player p = Blue \<and> row m < row (position p))) \<and>
              ((\<bar>row m - row (position p)\<bar> = 1 \<and> \<bar>col m - col (position p)\<bar> = 1)
               \<or> (\<bar>row m - row (position p)\<bar> = 2 \<and> \<bar>col m - col (position p)\<bar> = 2
                   \<and> (\<exists>q. pieceAt g (midpoint (position p) m) = Some q
                            \<and> player q \<noteq> player p)))"
  proof
    fix m assume "m \<in> set (pureNormalMoves g p)"
    then have h: "onBoard m" "pieceAt g m = None" "forwardOk p (row m - row (position p))"
      "(\<bar>row m - row (position p)\<bar> = 1 \<and> \<bar>col m - col (position p)\<bar> = 1)
       \<or> (\<bar>row m - row (position p)\<bar> = 2 \<and> \<bar>col m - col (position p)\<bar> = 2
           \<and> opposing g p (midpoint (position p) m))"
      by (simp_all add: set_pureNormalMoves)
    from h(1) have "0 \<le> row m \<and> row m \<le> 7 \<and> 0 \<le> col m \<and> col m \<le> 7"
      by (simp add: onBoard_def)
    moreover from h(3) have "crowned p \<or> (player p = Red \<and> row m > row (position p))
                         \<or> (player p = Blue \<and> row m < row (position p))"
      by (auto simp: forwardOk_def)
    ultimately show "pieceAt g m = None \<and> 0 \<le> row m \<and> row m \<le> 7 \<and> 0 \<le> col m \<and> col m \<le> 7 \<and>
              (crowned p \<or> (player p = Red \<and> row m > row (position p))
                         \<or> (player p = Blue \<and> row m < row (position p))) \<and>
              ((\<bar>row m - row (position p)\<bar> = 1 \<and> \<bar>col m - col (position p)\<bar> = 1)
               \<or> (\<bar>row m - row (position p)\<bar> = 2 \<and> \<bar>col m - col (position p)\<bar> = 2
                   \<and> (\<exists>q. pieceAt g (midpoint (position p) m) = Some q
                            \<and> player q \<noteq> player p)))"
      using h(2,4) by (simp add: opposing_iff)
  qed
  ultimately show ?thesis by blast
qed

theorem getNormalMoves_destinations_witness:
  "grid8 scenarioGrid \<and> ptype red23 = Normal \<and> onBoard (position red23) \<and>
   getNormalMoves (boardOf scenarioGrid) red23 = Inr [\<lparr> row = 3, col = 2 \<rparr>, \<lparr> row = 4, col = 5 \<rparr>] \<and>
   (\<exists>ms. getNormalMoves (boardOf scenarioGrid) red23 = Inr ms \<and>
           (\<forall>m \<in> set ms.
              pieceAt scenarioGrid m = None \<and> 0 \<le> row m \<and> row m \<le> 7 \<and> 0 \<le> col m \<and> col m \<le> 7 \<and>
              (crowned red23 \<or> (player red23 = Red \<and> row m > row (position red23))
                         \<or> (player red23 = Blue \<and> row m < row (position red23))) \<and>
              ((\<bar>row m - row (position red23)\<bar> = 1 \<and> \<bar>col m - col (position red23)\<bar> = 1)
               \<or> (\<bar>row m - row (position red23)\<bar> = 2 \<and> \<bar>col m - col (position red23)\<bar> = 2
                   \<and> (\<exists>q. pieceAt scenarioGrid (midpoint (position red23) m) = Some q
                            \<and> player q \<noteq> player red23)))))"
proof -
  have h1: "grid8 scenarioGrid" unfolding scenarioGrid_def by (rule grid8_gridWith)
  have h2: "ptype red23 = Normal" by (simp add: red23_def mkPiece_def)
  have h3: "onBoard (position red23)" by (simp add: red23_def mkPiece_def onBoard_def)
  have v: "getNormalMoves (boardOf scenarioGrid) red23
             = Inr [\<lparr> row = 3, col = 2 \<rparr>, \<lparr> row = 4, col = 5 \<rparr>]"
    by (simp add: scenarioGrid_def red23_def blue34_def eval_defs)
  show ?thesis
    using getNormalMoves_destinations [OF h1 h2 h3] h1 h2 h3 v by blast
qed


text \<open>
  Claim C4. On a board of eight by eight squares, for every origin, destination and moving
  piece, \<open>handleCapture\<close> returns a captured piece if and only if the move is a
  qualifying jump (row and column distance both 2, or for a pancake row distance 0 and
  column distance 2) and the square halfway holds a piece of the opponent; it then returns
  that piece and that square. For any other geometry, and for a qualifying jump over a
  square of the board that is empty or holds a piece of the mover's colour, it returns no
  capture.
\<close>

theorem handleCapture_credits:
  assumes "grid8 g"
  shows "((\<exists>res. handleCapture (boardOf g) src dst p = Inr res \<and> capturedPiece res \<noteq> None)
            \<longleftrightarrow> qualifyingJump src dst p
                \<and> (\<exists>q. pieceAt g (midpoint src dst) = Some q \<and> player q \<noteq> player p))
         \<and> (qualifyingJump src dst p
              \<and> (\<exists>q. pieceAt g (midpoint src dst) = Some q \<and> player q \<noteq> player p)
            \<longrightarrow> handleCapture (boardOf g) src dst p
                  = Inr \<lparr> capturedPiece = pieceAt g (midpoint src dst),
                          capturedSquare = Some (midpoint src dst) \<rparr>)
         \<and> (\<not> qualifyingJump src dst p
            \<longrightarrow> handleCapture (boardOf g) src dst p = Inr noCapture)
         \<and> (qualifyingJump src dst p \<and> onBoard (midpoint src dst)
              \<and> (pieceAt g (midpoint src dst) = None
                  \<or> (\<exists>q. pieceAt g (midpoint src dst) = Some q \<and> player q = player p))
            \<longrightarrow> handleCapture (boardOf g) src dst p = Inr noCapture)"
proof -
  let ?mid = "midpoint src dst"
  have opp: "opposing g p ?mid \<Longrightarrow> onBoard ?mid"
    by (auto simp: opposing_def pieceAt_def split: if_splits)
  have a: "(\<exists>res. handleCapture (boardOf g) src dst p = Inr res \<and> capturedPiece res \<noteq> None)
            \<longleftrightarrow> qualifyingJump src dst p \<and> opposing g p ?mid"
  proof (cases "qualifyingJump src dst p \<and> opposing g p ?mid")
    case True
    then have "0 \<le> row ?mid \<and> row ?mid < 8" using opp by (simp add: onBoard_def)
    with True show ?thesis
      by (auto simp: handleCapture_boardOf [OF assms] opposing_iff)
  next
    case False
    then show ?thesis
      by (auto simp: handleCapture_boardOf [OF assms] noCapture_def split: if_splits)
  qed
  have b: "qualifyingJump src dst p \<and> opposing g p ?mid
            \<longrightarrow> handleCapture (boardOf g) src dst p
                  = Inr \<lparr> capturedPiece = pieceAt g ?mid, capturedSquare = Some ?mid \<rparr>"
    using opp by (auto simp: handleCapture_boardOf [OF assms] onBoard_def)
  have c: "\<not> qualifyingJump src dst p
            \<longrightarrow> handleCapture (boardOf g) src dst p = Inr noCapture"
    by (simp add: handleCapture_boardOf [OF assms])
  have d: "qualifyingJump src dst p \<and> onBoard ?mid \<and> \<not> opposing g p ?mid
            \<longrightarrow> handleCapture (boardOf g) src dst p = Inr noCapture"
    by (simp add: handleCapture_boardOf [OF assms] onBoard_def)
  have e: "(pieceAt g ?mid = None \<or> (\<exists>q. pieceAt g ?mid = Some q \<and> player q = player p))
           \<longleftrightarrow> \<not> opposing g p ?mid"
    by (auto simp: opposing_iff)
  show ?thesis
    using a b c d unfolding e by (simp only: opposing_iff)
qed

theorem handleCapture_credits_witness:
  "grid8 scenarioGrid
   \<and> handleCapture (boardOf scenarioGrid) \<lparr> row = 2, col = 3 \<rparr> \<lparr> row = 4, col = 5 \<rparr> red23
       = Inr \<lparr> capturedPiece = Some blue34, capturedSquare = Some \<lparr> row = 3, col = 4 \<rparr> \<rparr>
   \<and> handleCapture (boardOf scenarioGrid) \<lparr> row = 2, col = 3 \<rparr> \<lparr> row = 3, col = 2 \<rparr> red23
       = Inr noCapture
   \<and> handleCapture (boardOf scenarioGrid) \<lparr> row = 2, col = 3 \<rparr> \<lparr> row = 4, col = 1 \<rparr> red23
       = Inr noCapture"
proof -
  have h: "grid8 scenarioGrid" unfolding scenarioGrid_def by (rule grid8_gridWith)
  have m1: "midpoint \<lparr> row = 2, col = 3 \<rparr> \<lparr> row = 4, col = 5 \<rparr> = \<lparr> row = 3, col = 4 \<rparr>"
    and m2: "midpoint \<lparr> row = 2, col = 3 \<rparr> \<lparr> row = 4, col = 1 \<rparr> = \<lparr> row = 3, col = 2 \<rparr>"
    by (simp_all add: midpoint_def)
  have pl: "player blue34 \<noteq> player red23"
    by (simp add: red23_def blue34_def mkPiece_def)
  have 1: "handleCapture (boardOf scenarioGrid) \<lparr> row = 2, col = 3 \<rparr> \<lparr> row = 4, col = 5 \<rparr> red23
       = Inr \<lparr> capturedPiece = Some blue34, capturedSquare = Some \<lparr> row = 3, col = 4 \<rparr> \<rparr>"
    using handleCapture_credits [OF h, of "\<lparr> row = 2, col = 3 \<rparr>" "\<lparr> row = 4, col = 5 \<rparr>" red23] pl
    by (simp add: qualifyingJump_def m1 scenario_cells)
  have 2: "handleCapture (boardOf scenarioGrid) \<lparr> row = 2, col = 3 \<rparr> \<lparr> row = 3, col = 2 \<rparr> red23
       = Inr noCapture"
    using handleCapture_credits [OF h, of "\<lparr> row = 2, col = 3 \<rparr>" "\<lparr> row = 3, col = 2 \<rparr>" red23]
    by (simp add: qualifyingJump_def)
  have 3: "handleCapture (boardOf scenarioGrid) \<lparr> row = 2, col = 3 \<rparr> \<lparr> row = 4, col = 1 \<rparr> red23
       = Inr noCapture"
    using handleCapture_credits [OF h, of "\<lparr> row = 2, col = 3 \<rparr>" "\<lparr> row = 4, col = 1 \<rparr>" red23]
    by (simp add: qualifyingJump_def m2 scenario_cells onBoard_def)
  show ?thesis using h 1 2 3 by simp
qed

text \<open>
  Claim C2 (the rule engine never raises, also for destinations off the board). The
  validator reads \<open>board[to.row][to.col]\<close> before it checks the bounds of the destination,
  so for a destination in row -1 or row 8 of an ordinary board it raises a TypeError instead
  of answering; \<open>handleCapture\<close> raises likewise when the square halfway lies in a row
  off the board.
\<close>

theorem isValidMove_raises_off_board:
  "isValidMove (boardOf (gridWith [blue01])) (position blue01) \<lparr> row = - 1, col = 0 \<rparr> blue01
     = Inl TypeError
   \<and> isValidMove (boardOf (gridWith [red23, blue34])) (position red23) \<lparr> row = 8, col = 3 \<rparr> red23
     = Inl TypeError
   \<and> handleCapture (boardOf (gridWith [blue01])) (position blue01) \<lparr> row = - 2, col = 3 \<rparr> blue01
     = Inl TypeError"
  by (simp add: eval_valid eval_defs blue01_def red23_def blue34_def)

text \<open>
  Claim C1 (the validator accepts a destination exactly when the generator produces it).
  Two positions where the generator of the piece's variant produces a destination that
  \<open>isValidMove\<close> rejects: the backward diagonal step (2,2) of an uncrowned red pancake on
  (3,3) of an otherwise empty board, and the special move of a red bagel on (2,3) to the
  square (5,6) that a blue piece has just left.
\<close>

theorem validator_rejects_generated_moves:
  "getPancakeMoves (boardOf (gridWith [redPancake33])) redPancake33
     = Inr [\<lparr> row = 4, col = 4 \<rparr>, \<lparr> row = 4, col = 2 \<rparr>, \<lparr> row = 2, col = 4 \<rparr>,
            \<lparr> row = 2, col = 2 \<rparr>, \<lparr> row = 3, col = 4 \<rparr>, \<lparr> row = 3, col = 2 \<rparr>]
   \<and> isValidMove (boardOf (gridWith [redPancake33])) (position redPancake33)
        \<lparr> row = 2, col = 2 \<rparr> redPancake33 = Inr False
   \<and> getBagelMoves (boardOf (gridWith [redBagel23, blue45])) redBagel23 bagelHistory
     = Inr [\<lparr> row = 3, col = 2 \<rparr>, \<lparr> row = 3, col = 4 \<rparr>, \<lparr> row = 5, col = 6 \<rparr>]
   \<and> isValidMove (boardOf (gridWith [redBagel23, blue45])) (position redBagel23)
        \<lparr> row = 5, col = 6 \<rparr> redBagel23 = Inr False"
  by (simp add: eval_valid eval_defs redPancake33_def redBagel23_def blue45_def bagelHistory_def)

text \<open>
  Claim C7, as amended. On a board of eight by eight squares, for a bagel positioned on the
  board and a history whose moves start on the board, \<open>getBagelMoves\<close> returns the normal
  moves of the piece followed by, when the last move of the history was made by the
  opponent, the origin square of that move, included exactly when it is empty and lies on
  a diagonal of the bagel at any distance: in any direction for a crowned bagel, and for a
  bagel that is not crowned in no backward direction (rows not decreasing for red, not
  increasing for blue).
\<close>

theorem getBagelMoves_exact:
  assumes "grid8 g" and "ptype p = Bagel" and "onBoard (position p)"
    and "\<forall>mv \<in> set h. onBoard (move_from mv)"
  shows "\<exists>normalMoves. getNormalMoves (boardOf g) p = Inr normalMoves \<and>
     getBagelMoves (boardOf g) p h =
       Inr (normalMoves @
            (if h \<noteq> [] \<and> player (move_piece (last h)) \<noteq> player p
                \<and> pieceAt g (move_from (last h)) = None
                \<and> \<bar>row (move_from (last h)) - row (position p)\<bar>
                    = \<bar>col (move_from (last h)) - col (position p)\<bar>
                \<and> (crowned p
                    \<or> (player p = Red \<and> row (move_from (last h)) \<ge> row (position p))
                    \<or> (player p = Blue \<and> row (move_from (last h)) \<le> row (position p)))
             then [move_from (last h)] else []))"
proof -
  have "getNormalMoves (boardOf g) p = Inr (pureNormalMoves g p)"
    using assms(1,3) by (rule getNormalMoves_boardOf)
  moreover have "getBagelMoves (boardOf g) p h =
       Inr (pureNormalMoves g p @
            (if h \<noteq> [] \<and> player (move_piece (last h)) \<noteq> player p
                \<and> pieceAt g (move_from (last h)) = None
                \<and> \<bar>row (move_from (last h)) - row (position p)\<bar>
                    = \<bar>col (move_from (last h)) - col (position p)\<bar>
                \<and> (crowned p
                    \<or> (player p = Red \<and> row (move_from (last h)) \<ge> row (position p))
                    \<or> (player p = Blue \<and> row (move_from (last h)) \<le> row (position p)))
             then [move_from (last h)] else []))"
    using assms(1,3,4) by (rule getBagelMoves_boardOf)
  ultimately show ?thesis by blast
qed

theorem getBagelMoves_exact_witness:
  "grid8 (gridWith [redCrownedBagel44, blue11]) \<and> ptype redCrownedBagel44 = Bagel
   \<and> onBoard (position redCrownedBagel44)
   \<and> list_all (\<lambda>mv. onBoard (move_from mv)) blueHistory
   \<and> getNormalMoves (boardOf (gridWith [redCrownedBagel44, blue11])) redCrownedBagel44
       = Inr [\<lparr> row = 5, col = 3 \<rparr>, \<lparr> row = 5, col = 5 \<rparr>,
              \<lparr> row = 3, col = 3 \<rparr>, \<lparr> row = 3, col = 5 \<rparr>]
   \<and> getBagelMoves (boardOf (gridWith [redCrownedBagel44, blue11])) redCrownedBagel44 blueHistory
       = Inr [\<lparr> row = 5, col = 3 \<rparr>, \<lparr> row = 5, col = 5 \<rparr>,
              \<lparr> row = 3, col = 3 \<rparr>, \<lparr> row = 3, col = 5 \<rparr>, \<lparr> row = 2, col = 2 \<rparr>]"
proof -
  let ?g = "gridWith [redCrownedBagel44, blue11]"
  have h1: "grid8 ?g" by (rule grid8_gridWith)
  have h2: "ptype redCrownedBagel44 = Bagel" by (simp add: redCrownedBagel44_def mkPiece_def)
  have h3: "onBoard (position redCrownedBagel44)"
    by (simp add: redCrownedBagel44_def mkPiece_def onBoard_def)
  have h4: "\<forall>mv \<in> set blueHistory. onBoard (move_from mv)"
    by (simp add: blueHistory_def onBoard_def)
  have n: "getNormalMoves (boardOf ?g) redCrownedBagel44
       = Inr [\<lparr> row = 5, col = 3 \<rparr>, \<lparr> row = 5, col = 5 \<rparr>,
              \<lparr> row = 3, col = 3 \<rparr>, \<lparr> row = 3, col = 5 \<rparr>]"
    by (simp add: eval_defs redCrownedBagel44_def blue11_def)
  have e: "pieceAt ?g \<lparr> row = 2, col = 2 \<rparr> = None"
    by (simp add: pieceAt_def onBoard_def redCrownedBagel44_def blue11_def mkPiece_def
          emptyGrid_def Let_def)
  have "getBagelMoves (boardOf ?g) redCrownedBagel44 blueHistory
       = Inr [\<lparr> row = 5, col = 3 \<rparr>, \<lparr> row = 5, col = 5 \<rparr>,
              \<lparr> row = 3, col = 3 \<rparr>, \<lparr> row = 3, col = 5 \<rparr>, \<lparr> row = 2, col = 2 \<rparr>]"
    using getBagelMoves_exact [OF h1 h2 h3 h4] n e
    by (simp add: blueHistory_def redCrownedBagel44_def mkPiece_def)
  then show ?thesis using h1 h2 h3 h4 n by (simp add: list_all_iff)
qed


text \<open>
  The claim as stated limits a bagel that is not crowned to one diagonal step. An uncrowned
  blue bagel on (6,5) is given the square (2,1), four steps away, that a red piece has just
  left.
\<close>

theorem getBagelMoves_far_square:
  "getBagelMoves (boardOf (gridWith [blueBagel65, red32])) blueBagel65 redHistory
     = Inr [\<lparr> row = 5, col = 4 \<rparr>, \<lparr> row = 5, col = 6 \<rparr>, \<lparr> row = 2, col = 1 \<rparr>]
   \<and> \<not> crowned blueBagel65
   \<and> \<bar>row \<lparr> row = 2, col = 1 \<rparr> - row (position blueBagel65)\<bar> = 4
   \<and> \<bar>col \<lparr> row = 2, col = 1 \<rparr> - col (position blueBagel65)\<bar> = 4"
  by (simp add: eval_valid eval_defs blueBagel65_def red32_def redHistory_def)

text \<open>
  Claim C6. For every state: \<open>finishDraft\<close> with a total of selected pieces other than
  12 for either player returns the state as it was (so the phase stays Draft), with both
  totals 12 it moves to Placement, and from Draft the phase afterwards is Placement exactly
  when both totals are 12; \<open>movePiece\<close> with no selected piece, or in an inactive game, or
  with a destination that is not in the list of valid moves, returns the state as it was.
\<close>

theorem rejected_commands_change_nothing:
  "(totalCount (red (pieceSelections s)) \<noteq> 12 \<or> totalCount (blue (pieceSelections s)) \<noteq> 12
      \<longrightarrow> finishDraft s = Done s)
   \<and> (totalCount (red (pieceSelections s)) = 12 \<and> totalCount (blue (pieceSelections s)) = 12
      \<longrightarrow> (\<exists>s'. finishDraft s = Done s' \<and> phase (gameState s') = Placement))
   \<and> (phase (gameState s) = Draft
      \<longrightarrow> (phase (gameState (stateAfter (finishDraft s))) = Placement
           \<longleftrightarrow> totalCount (red (pieceSelections s)) = 12
               \<and> totalCount (blue (pieceSelections s)) = 12))
   \<and> (selectedPiece s = None \<or> \<not> gameActive (gameState s)
        \<or> \<lparr> row = r, col = c \<rparr> \<notin> set (validMoves s)
      \<longrightarrow> movePiece s r c = Done s)"
proof -
  have m: "list_ex (\<lambda>m. row m = r \<and> col m = c) (validMoves s)
           \<longleftrightarrow> \<lparr> row = r, col = c \<rparr> \<in> set (validMoves s)"
  proof -
    have "(\<exists>m \<in> set (validMoves s). row m = r \<and> col m = c)
          \<longleftrightarrow> (\<exists>m \<in> set (validMoves s). m = \<lparr> row = r, col = c \<rparr>)"
      by (simp add: Square_eq)
    then show ?thesis by (simp add: list_ex_iff)
  qed
  have "selectedPiece s = None \<or> \<not> gameActive (gameState s)
        \<or> \<lparr> row = r, col = c \<rparr> \<notin> set (validMoves s)
      \<longrightarrow> movePiece s r c = Done s"
    unfolding movePiece_def m by (auto split: option.splits)
  then show ?thesis
    by (auto simp: finishDraft_def TOTAL_PIECES_PER_PLAYER_def Let_def stateAfter_def)
qed

theorem rejected_commands_change_nothing_witness:
  "finishDraft (draftState (withCounts 12 0 0) (withCounts 11 0 0))
     = Done (draftState (withCounts 12 0 0) (withCounts 11 0 0))
   \<and> phase (gameState (draftState (withCounts 12 0 0) (withCounts 11 0 0))) = Draft
   \<and> phase (gameState (stateAfter (finishDraft (draftState (withCounts 6 3 3) (withCounts 12 0 0)))))
       = Placement
   \<and> movePiece initialProvider 3 4 = Done initialProvider
   \<and> movePiece (stateWith Play scenarioGrid) 3 4 = Done (stateWith Play scenarioGrid)"
proof -
  have t: "totalCount (withCounts 12 0 0) = 12" "totalCount (withCounts 11 0 0) = 11"
    "totalCount (withCounts 6 3 3) = 12"
    by (simp_all add: totalCount_def withCounts_def)
  have 1: "finishDraft (draftState (withCounts 12 0 0) (withCounts 11 0 0))
     = Done (draftState (withCounts 12 0 0) (withCounts 11 0 0))"
    using rejected_commands_change_nothing
            [of "draftState (withCounts 12 0 0) (withCounts 11 0 0)" 0 0]
    by (simp add: draftState_def t)
  have 2: "phase (gameState (stateAfter (finishDraft (draftState (withCounts 6 3 3) (withCounts 12 0 0)))))
       = Placement"
    using rejected_commands_change_nothing
            [of "draftState (withCounts 6 3 3) (withCounts 12 0 0)" 0 0]
    by (simp add: draftState_def t)
  have 3: "movePiece initialProvider 3 4 = Done initialProvider"
    using rejected_commands_change_nothing [of initialProvider 3 4]
    by (simp add: initialProvider_def)
  have 4: "movePiece (stateWith Play scenarioGrid) 3 4 = Done (stateWith Play scenarioGrid)"
    using rejected_commands_change_nothing [of "stateWith Play scenarioGrid" 3 4]
    by (simp add: stateWith_def initialProvider_def)
  show ?thesis using 1 2 3 4 by (simp add: draftState_def)
qed

text \<open>
  Claim C8, as amended. On a board of eight by eight squares, during the Placement phase a
  call of \<open>placePiece\<close> naming a square of the board puts the piece, its position set to
  that square, on that square, whatever the square holds and wherever it lies, and changes
  nothing else; in any other phase the call returns the state as it was.
\<close>

theorem placePiece_writes:
  assumes "board (gameState s) = boardOf g" and "grid8 g" and "onBoard \<lparr> row = r, col = c \<rparr>"
  shows "(phase (gameState s) = Placement \<longrightarrow>
            placePiece s p r c =
              Done (s\<lparr> gameState := (gameState s)
                         \<lparr> board := boardOf (g[nat r := (g ! nat r)
                                       [nat c := Some (p\<lparr> position := \<lparr> row = r, col = c \<rparr> \<rparr>)]]) \<rparr> \<rparr>))
         \<and> (phase (gameState s) \<noteq> Placement \<longrightarrow> placePiece s p r c = Done s)"
  by (simp add: placePiece_def assms(1) Let_def cellOf_Some setCell_boardOf [OF assms(2,3)])

theorem placePiece_writes_witness:
  "placePiece (stateWith Placement (gridWith [red23])) blue34 2 3
     = Done (stateWith Placement (gridWith [blue23]))
   \<and> placePiece (stateWith Play (gridWith [red23])) blue34 2 3
     = Done (stateWith Play (gridWith [red23]))"
proof -
  have h1: "board (gameState (stateWith Placement (gridWith [red23]))) = boardOf (gridWith [red23])"
    and h1': "board (gameState (stateWith Play (gridWith [red23]))) = boardOf (gridWith [red23])"
    by (simp_all add: stateWith_def)
  have h2: "grid8 (gridWith [red23])" by (rule grid8_gridWith)
  have h3: "onBoard \<lparr> row = 2, col = 3 \<rparr>" by (simp add: onBoard_def)
  have g: "(gridWith [red23])[nat 2 := (gridWith [red23] ! nat 2)
              [nat 3 := Some (blue34\<lparr> position := \<lparr> row = 2, col = 3 \<rparr> \<rparr>)]] = gridWith [blue23]"
    by (simp add: red23_def blue34_def blue23_def mkPiece_def emptyGrid_def)
  show ?thesis
    using placePiece_writes [OF h1 h2 h3, of blue34] placePiece_writes [OF h1' h2 h3, of blue34]
    unfolding g by (simp add: stateWith_def)
qed

text \<open>
  The claim as stated has \<open>placePiece\<close> write only on empty dark squares of the owner's
  first three ranks. In the Placement phase a blue piece placed on (2,3), a square of red's
  ranks that a red piece occupies, replaces that piece; and a red piece placed on the empty
  light square (4,4), outside red's ranks, is written there.
\<close>

theorem placePiece_overwrites:
  "phase (gameState (stateWith Placement (gridWith [red23]))) = Placement
   \<and> getCell (board (gameState (stateWith Placement (gridWith [red23])))) 2 3 = Inr (Pc red23)
   \<and> getCell (board (gameState (stateAfter
         (placePiece (stateWith Placement (gridWith [red23])) blue34 2 3)))) 2 3 = Inr (Pc blue23)
   \<and> getCell (board (gameState (stateWith Placement (gridWith [red23])))) 4 4 = Inr Null
   \<and> getCell (board (gameState (stateAfter
         (placePiece (stateWith Placement (gridWith [red23])) red44 4 4)))) 4 4 = Inr (Pc red44)"
  by (simp add: stateWith_def initialProvider_def placePiece_def stateAfter_def setCell_def
        writeRow_def copyBoard_def copyRow_def getCell_def boardOf_def rowOf_def cellOf_def
        emptyGrid_def red23_def blue34_def blue23_def red44_def mkPiece_def Let_def)

text \<open>
  Claim C5 (the win evaluator ends the game for immobility only when a player has no legal
  move on any piece). \<open>checkWinCondition\<close> computes the moves of a bagel with an empty
  history; the source notes there that it should pass the real one. On the board with a
  red bagel on (0,0) and blue pieces on (1,1) and (2,2), the second of which has just come
  from (3,3), the generator gives the bagel the square (3,3) and gives blue a move too, yet
  \<open>checkWinCondition\<close> returns game over with blue as winner. In the state machine
  that is the state after blue's move from (3,3) to (2,2): it is red's turn, the generator
  called as the state machine calls it gives red's bagel the move to (3,3), and the phase
  is GameOver.
\<close>

theorem checkWinCondition_ignores_history:
  "checkWinCondition (boardOf (gridWith [redBagel00, blue11, blue22])) \<lparr> red = 1, blue = 2 \<rparr>
     = Inr \<lparr> gameOver = True, winner = Some Blue \<rparr>
   \<and> getBagelMoves (boardOf (gridWith [redBagel00, blue11, blue22])) redBagel00 cornerHistory
     = Inr [\<lparr> row = 3, col = 3 \<rparr>]
   \<and> getNormalMoves (boardOf (gridWith [redBagel00, blue11, blue22])) blue11
     = Inr [\<lparr> row = 0, col = 2 \<rparr>]
   \<and> getCell (board (gameState cornerState)) 0 0 = Inr (Pc redBagel00)
   \<and> getCell (board (gameState cornerState)) 1 1 = Inr (Pc blue11)
   \<and> getCell (board (gameState cornerState)) 2 2 = Inr (Pc blue22)
   \<and> getCell (board (gameState cornerState)) 3 3 = Inr Null
   \<and> moveHistory (gameState cornerState) = cornerHistory
   \<and> currentPlayer (gameState cornerState) = Red
   \<and> getValidMovesForPiece (gameState cornerState) redBagel00 = Inr [\<lparr> row = 3, col = 3 \<rparr>]
   \<and> checkWinCondition (board (gameState cornerState)) (pieceCounts (gameState cornerState))
     = Inr \<lparr> gameOver = True, winner = Some Blue \<rparr>
   \<and> phase (gameState cornerState) = GameOver"
proof -
  have direct: "checkWinCondition (boardOf (gridWith [redBagel00, blue11, blue22]))
                  \<lparr> red = 1, blue = 2 \<rparr> = Inr \<lparr> gameOver = True, winner = Some Blue \<rparr>"
    by (simp add: run_defs eval_valid eval_defs redBagel00_def blue11_def blue22_def)
  have moves: "getBagelMoves (boardOf (gridWith [redBagel00, blue11, blue22])) redBagel00
                 cornerHistory = Inr [\<lparr> row = 3, col = 3 \<rparr>]"
    "getNormalMoves (boardOf (gridWith [redBagel00, blue11, blue22])) blue11
       = Inr [\<lparr> row = 0, col = 2 \<rparr>]"
    by (simp_all add: cornerHistory_def eval_valid eval_defs redBagel00_def blue11_def
          blue22_def blue33_def)
  have cells: "getCell (board (gameState cornerState)) 0 0 = Inr (Pc redBagel00)"
    "getCell (board (gameState cornerState)) 1 1 = Inr (Pc blue11)"
    "getCell (board (gameState cornerState)) 2 2 = Inr (Pc blue22)"
    "getCell (board (gameState cornerState)) 3 3 = Inr Null"
    by (simp_all add: cornerState_def run_defs eval_valid eval_defs redBagel00_def blue11_def
          blue33_def blue22_def)
  have after: "moveHistory (gameState cornerState) = cornerHistory"
    "currentPlayer (gameState cornerState) = Red"
    "getValidMovesForPiece (gameState cornerState) redBagel00 = Inr [\<lparr> row = 3, col = 3 \<rparr>]"
    "phase (gameState cornerState) = GameOver"
    by (simp_all add: cornerState_def cornerHistory_def run_defs eval_valid eval_defs
          redBagel00_def blue11_def blue33_def)
  have again: "checkWinCondition (board (gameState cornerState))
                 (pieceCounts (gameState cornerState))
               = Inr \<lparr> gameOver = True, winner = Some Blue \<rparr>"
    by (simp add: cornerState_def run_defs eval_valid eval_defs redBagel00_def blue11_def
          blue33_def)
  show ?thesis using direct moves cells after again by simp
qed

text \<open>
  Claim C10 (a piece that lands on the far row of its colour is crowned by the committed
  move). \<open>movePiece\<close> decides the crowning by the player to move, not by the colour of
  the piece it moves, and \<open>finishPlacement\<close>, which has no check of the phase, gives the
  turn to red and keeps the selection. After red's move the blue piece on (1,0) is
  selected, \<open>finishPlacement\<close> is called, and the piece is moved to (0,1): the move is
  committed and recorded in the history, and it leaves the blue piece on row 0 with its
  crowned flag false. The same commands without the call of \<open>finishPlacement\<close> leave it
  crowned.
\<close>

theorem movePiece_uncrowned_on_far_row:
  "getCell (board (gameState (run (stateWith Play (gridWith [red23, blue10, blue54]))
                            staleSelection))) 0 1
     = Inr (Pc (mkPiece ''blue-normal-0'' Normal Blue False 0 1))
   \<and> getCell (board (gameState (run (stateWith Play (gridWith [red23, blue10, blue54]))
                            staleSelection))) 1 0
     = Inr Null
   \<and> map move_piece (moveHistory (gameState
         (run (stateWith Play (gridWith [red23, blue10, blue54])) staleSelection)))
     = [red23, blue10]
   \<and> map move_to (moveHistory (gameState
         (run (stateWith Play (gridWith [red23, blue10, blue54])) staleSelection)))
     = [\<lparr> row = 3, col = 2 \<rparr>, \<lparr> row = 0, col = 1 \<rparr>]
   \<and> phase (gameState (run (stateWith Play (gridWith [red23, blue10, blue54])) staleSelection))
     = Play
   \<and> getCell (board (gameState (run (stateWith Play (gridWith [red23, blue10, blue54]))
                            freshSelection))) 0 1
     = Inr (Pc (mkPiece ''blue-normal-0'' Normal Blue True 0 1))"
proof -
  let ?s = "stateWith Play (gridWith [red23, blue10, blue54])"
  have stale: "getCell (board (gameState (run ?s staleSelection))) 0 1
                 = Inr (Pc (mkPiece ''blue-normal-0'' Normal Blue False 0 1))"
    "getCell (board (gameState (run ?s staleSelection))) 1 0 = Inr Null"
    by (simp_all add: staleSelection_def run_defs eval_valid eval_defs red23_def blue10_def
          blue54_def)
  have history: "map move_piece (moveHistory (gameState (run ?s staleSelection)))
                   = [red23, blue10]"
    "map move_to (moveHistory (gameState (run ?s staleSelection)))
       = [\<lparr> row = 3, col = 2 \<rparr>, \<lparr> row = 0, col = 1 \<rparr>]"
    "phase (gameState (run ?s staleSelection)) = Play"
    by (simp_all add: staleSelection_def run_defs eval_valid eval_defs red23_def blue10_def
          blue54_def)
  have fresh: "getCell (board (gameState (run ?s freshSelection))) 0 1
                 = Inr (Pc (mkPiece ''blue-normal-0'' Normal Blue True 0 1))"
    by (simp add: freshSelection_def run_defs eval_valid eval_defs red23_def blue10_def
          blue54_def)
  show ?thesis using stale history fresh by simp
qed

text \<open>
  Claim C9 (the AI returns a move whenever it is its turn and one of its pieces has a legal
  move). The AI collects its candidates with the validator, and the validator rejects the
  backward step of a pancake that is not crowned, which the generator lists: the defect of
  claim C1. With blue, the AI's colour, to move, a blue pancake on (0,0) and a blue bomb on
  (0,1), the generator gives the pancake the move to (1,1), the validator rejects that
  move, and \<open>getNextMove\<close> returns none at each of the three difficulties, whatever the
  random draw.
\<close>

theorem getNextMove_none_with_generated_move:
  "currentPlayer stuckState = playerColor
   \<and> getAIPieces stuckState = [bluePancake00, blueBomb01]
   \<and> getValidMovesForPiece stuckState bluePancake00 = Inr [\<lparr> row = 1, col = 1 \<rparr>]
   \<and> isValidMove (board stuckState) (position bluePancake00) \<lparr> row = 1, col = 1 \<rparr> bluePancake00
       = Inr False
   \<and> getNextMove Easy rnd stuckState = Inr None
   \<and> getNextMove Medium rnd stuckState = Inr None
   \<and> getNextMove Hard rnd stuckState = Inr None"
proof -
  have "currentPlayer stuckState = playerColor"
    by (simp add: stuckState_def playerColor_def)
  moreover have "getValidMovesForPiece stuckState bluePancake00 = Inr [\<lparr> row = 1, col = 1 \<rparr>]"
    by (simp add: getValidMovesForPiece_def stuckState_def stateWith_def
          bluePancake00_def blueBomb01_def eval_valid eval_defs)
  moreover have "isValidMove (board stuckState) (position bluePancake00) \<lparr> row = 1, col = 1 \<rparr>
                   bluePancake00 = Inr False"
    by (simp add: stuckState_def stateWith_def bluePancake00_def blueBomb01_def eval_valid
          eval_defs)
  moreover have "getNextMove d rnd stuckState = Inr None" for d
    by (simp add: getNextMove_def stuckState_pieces stuckState_valid Let_def)
  ultimately show ?thesis by (simp add: stuckState_pieces)
qed

end
